theory Spec2Isabelle
  imports Complex_Main
begin

section \<open>JavaScript values used by the aggregation engine\<close>

text \<open>
  A JavaScript number is an IEEE double. The model keeps the three non-finite values
  apart and idealises every finite double as the real number it denotes: rounding of
  finite results is not modelled, \<open>Number.isFinite\<close> is.
\<close>

datatype jsnum = Num real | Infinity | NegInfinity | NaN

text \<open>\<open>asNum(v)\<close> of LandUseMap.jsx on a number: \<open>Number.isFinite(n) ? n : null\<close>.\<close>

fun asNum :: "jsnum \<Rightarrow> real option" where
  "asNum (Num r) = Some r"
| "asNum Infinity = None"
| "asNum NegInfinity = None"
| "asNum NaN = None"

text \<open>
  A JavaScript string is a sequence of UTF-16 code units. \<open>asc\<close> writes an ASCII
  literal.
\<close>

type_synonym jsstring = "nat list"

definition asc :: "string \<Rightarrow> jsstring" where
  "asc s = map of_char s"

section \<open>Geodata query retry (LandUseMap.jsx, fetchOverpassWithBackoff)\<close>







text \<open>\<open>Math.min(1500 * 2 ** attempt, 9000) + Math.random() * 400\<close>\<close>

definition backoff :: "nat \<Rightarrow> real \<Rightarrow> real" where
  "backoff attempt rnd = min (1500 * 2 ^ attempt) 9000 + rnd * 400"





section \<open>Catchment circles and parcel attribution (LandUseMap.jsx)\<close>

text \<open>A supply point as passed in \<open>supplyCircleCenters\<close>.\<close>

record center =
  lat :: jsnum
  lon :: jsnum

text \<open>
  One entry of \<open>buildCircleBBoxes\<close>: the circle's centre (\<open>lat\<close>, \<open>lon\<close> in the
  source) and its padded bounding box.
\<close>

record circle_box =
  box_lat :: real
  box_lon :: real
  minLat :: real
  maxLat :: real
  minLon :: real
  maxLon :: real

text \<open>\<open>Math.cos((lat * Math.PI) / 180) || 1\<close>\<close>

definition cos_or_1 :: "real \<Rightarrow> real" where
  "cos_or_1 l = (if cos (l * pi / 180) = 0 then 1 else cos (l * pi / 180))"

fun degenerate_radius :: "jsnum \<Rightarrow> bool" where
  "degenerate_radius (Num km) = (km \<le> 0)"
| "degenerate_radius Infinity = True"
| "degenerate_radius NegInfinity = True"
| "degenerate_radius NaN = True"

fun circle_boxes_loop :: "real \<Rightarrow> center list \<Rightarrow> circle_box list \<Rightarrow> circle_box list" where
  "circle_boxes_loop km [] out = out"
| "circle_boxes_loop km (p # ps) out =
     (case (asNum (lat p), asNum (lon p)) of
        (Some la, Some lo) \<Rightarrow>
          (let latPad = km / 111;
               lonPad = km / (111 * cos_or_1 la)
           in circle_boxes_loop km ps
                (out @ [\<lparr>box_lat = la, box_lon = lo,
                         minLat = la - latPad, maxLat = la + latPad,
                         minLon = lo - lonPad, maxLon = lo + lonPad\<rparr>]))
      | _ \<Rightarrow> circle_boxes_loop km ps out)"

fun buildCircleBBoxes :: "center list \<Rightarrow> jsnum \<Rightarrow> circle_box list" where
  "buildCircleBBoxes centers (Num km) =
     (if km \<le> 0 then [] else circle_boxes_loop km centers [])"
| "buildCircleBBoxes centers Infinity = []"
| "buildCircleBBoxes centers NegInfinity = []"
| "buildCircleBBoxes centers NaN = []"

text \<open>
  \<open>bboxAroundCenters\<close>: one box around all circles, \<open>None\<close> for the source's \<open>null\<close>.
  The running minima and maxima start at plus and minus infinity.
\<close>

record bbox =
  south :: jsnum
  west :: jsnum
  north :: jsnum
  east :: jsnum

fun math_min :: "jsnum \<Rightarrow> real \<Rightarrow> jsnum" where
  "math_min (Num a) x = Num (min a x)"
| "math_min Infinity x = Num x"
| "math_min NegInfinity x = NegInfinity"
| "math_min NaN x = NaN"

fun math_max :: "jsnum \<Rightarrow> real \<Rightarrow> jsnum" where
  "math_max (Num a) x = Num (max a x)"
| "math_max NegInfinity x = Num x"
| "math_max Infinity x = Infinity"
| "math_max NaN x = NaN"

fun finite_points :: "center list \<Rightarrow> (real \<times> real) list" where
  "finite_points [] = []"
| "finite_points (p # ps) =
     (case (asNum (lat p), asNum (lon p)) of
        (Some la, Some lo) \<Rightarrow> (la, lo) # finite_points ps
      | _ \<Rightarrow> finite_points ps)"

fun bbox_loop :: "real \<Rightarrow> (real \<times> real) list \<Rightarrow> bbox \<Rightarrow> bbox" where
  "bbox_loop r [] b = b"
| "bbox_loop r ((la, lo) # ps) b =
     (let latPad = r / 111;
          lonPad = r / (111 * cos_or_1 la)
      in bbox_loop r ps
           \<lparr>south = math_min (south b) (la - latPad),
            west = math_min (west b) (lo - lonPad),
            north = math_max (north b) (la + latPad),
            east = math_max (east b) (lo + lonPad)\<rparr>)"

definition bboxAroundCenters :: "center list \<Rightarrow> jsnum \<Rightarrow> bbox option" where
  "bboxAroundCenters centers radiusKm =
     (let pts = finite_points centers in
      if pts = [] then None
      else
        (let r = (case radiusKm of Num km \<Rightarrow> if km > 0 then km else 0 | _ \<Rightarrow> 0)
         in Some (bbox_loop r pts
              \<lparr>south = Infinity, west = Infinity, north = NegInfinity, east = NegInfinity\<rparr>)))"

text \<open>
  The geometry library (turf) is outside the repository: its three functions are
  parameters. \<open>turf_centroid\<close> gives the centroid's \<open>[x, y]\<close>, or \<open>None\<close> where the call
  throws or gives no coordinates; \<open>turf_distance\<close> is the great-circle distance in
  kilometres between two \<open>[lon, lat]\<close> positions; \<open>turf_area\<close> the area in square metres.
\<close>

datatype geometry_type = Polygon | MultiPolygon | Other_geometry

record 'c geometry =
  gtype :: geometry_type
  coordinates :: 'c

record 'c turf =
  turf_centroid :: "'c geometry \<Rightarrow> (jsnum \<times> jsnum) option"
  turf_distance :: "real \<times> real \<Rightarrow> real \<times> real \<Rightarrow> real"
  turf_area :: "'c geometry \<Rightarrow> jsnum"

fun any_circle :: "(real \<times> real \<Rightarrow> real \<times> real \<Rightarrow> real) \<Rightarrow> real \<Rightarrow> real \<Rightarrow> real \<Rightarrow>
    circle_box list \<Rightarrow> bool" where
  "any_circle distance km cx cy [] = False"
| "any_circle distance km cx cy (b # bs) =
     (if cy < minLat b \<or> cy > maxLat b \<or> cx < minLon b \<or> cx > maxLon b
      then any_circle distance km cx cy bs
      else if distance (cx, cy) (box_lon b, box_lat b) \<le> km then True
      else any_circle distance km cx cy bs)"

fun centroidInsideAnyCircle :: "'c turf \<Rightarrow> 'c geometry \<Rightarrow> circle_box list \<Rightarrow> jsnum \<Rightarrow> bool" where
  "centroidInsideAnyCircle T poly circleBoxes (Num km) =
     (if km \<le> 0 then False
      else
        (case turf_centroid T poly of
           None \<Rightarrow> False
         | Some (x, y) \<Rightarrow>
             (case (asNum x, asNum y) of
                (Some cx, Some cy) \<Rightarrow> any_circle (turf_distance T) km cx cy circleBoxes
              | _ \<Rightarrow> False)))"
| "centroidInsideAnyCircle T poly circleBoxes Infinity = False"
| "centroidInsideAnyCircle T poly circleBoxes NegInfinity = False"
| "centroidInsideAnyCircle T poly circleBoxes NaN = False"

text \<open>
  A feature of the fetched document: its land-use tag as found under
  \<open>properties.landuse\<close> and under \<open>properties.tags.landuse\<close>, and its geometry.
\<close>

record 'c osm_feature =
  properties_landuse :: "jsstring option"
  tags_landuse :: "jsstring option"
  geometry :: "'c geometry option"

text \<open>A retained parcel (\<open>tf\<close>), and the parcel with its share written.\<close>

record 'c parcel =
  parcel_geometry :: "'c geometry"
  landuse :: jsstring
  area :: real

record 'c attributed_parcel = "'c parcel" +
  fertilizer :: real

text \<open>One iteration of the first loop of \<open>run\<close>: the parcel pushed onto \<open>kept\<close>, if any.\<close>

definition retained :: "'c turf \<Rightarrow> (jsstring \<Rightarrow> bool) \<Rightarrow> circle_box list \<Rightarrow> jsnum \<Rightarrow>
    'c osm_feature \<Rightarrow> 'c parcel option" where
  "retained T landuseToggles circleBoxes searchRadiusKm f =
     (case (case properties_landuse f of Some l \<Rightarrow> Some l | None \<Rightarrow> tags_landuse f) of
        None \<Rightarrow> None
      | Some lu \<Rightarrow>
          if lu = [] \<or> \<not> landuseToggles lu then None
          else
            (case geometry f of
               None \<Rightarrow> None
             | Some g \<Rightarrow>
                 if gtype g \<noteq> Polygon \<and> gtype g \<noteq> MultiPolygon then None
                 else if \<not> centroidInsideAnyCircle T g circleBoxes searchRadiusKm then None
                 else
                   (case turf_area T g of
                      Num a \<Rightarrow>
                        if a \<le> 0 then None
                        else Some \<lparr>parcel_geometry = g, landuse = lu, area = a\<rparr>
                    | _ \<Rightarrow> None)))"

fun retain_loop :: "'c turf \<Rightarrow> (jsstring \<Rightarrow> bool) \<Rightarrow> circle_box list \<Rightarrow> jsnum \<Rightarrow>
    'c osm_feature list \<Rightarrow> 'c parcel list \<Rightarrow> real \<Rightarrow> 'c parcel list \<times> real" where
  "retain_loop T landuseToggles circleBoxes searchRadiusKm [] kept totalA = (kept, totalA)"
| "retain_loop T landuseToggles circleBoxes searchRadiusKm (f # fs) kept totalA =
     (case retained T landuseToggles circleBoxes searchRadiusKm f of
        None \<Rightarrow> retain_loop T landuseToggles circleBoxes searchRadiusKm fs kept totalA
      | Some tf \<Rightarrow>
          retain_loop T landuseToggles circleBoxes searchRadiusKm fs (kept @ [tf])
            (totalA + area tf))"

text \<open>
  The second loop:
  \<open>p.properties.fertilizer = totalA > 0 ? (p.properties.area / totalA) * prod : 0\<close>.
\<close>

definition assignFertilizer :: "'c parcel list \<Rightarrow> real \<Rightarrow> real \<Rightarrow> 'c attributed_parcel list" where
  "assignFertilizer kept totalA production =
     map (\<lambda>p. parcel.extend p
            (attributed_parcel.fields (if totalA > 0 then (area p / totalA) * production else 0)))
       kept"

text \<open>
  The body of \<open>run\<close> after the document has arrived; \<open>totalProduction\<close> is a finite
  number in every call. The result is what \<open>onDataUpdate\<close> receives.
\<close>

definition landuseRun :: "'c turf \<Rightarrow> (jsstring \<Rightarrow> bool) \<Rightarrow> circle_box list \<Rightarrow> jsnum \<Rightarrow>
    'c osm_feature list \<Rightarrow> real \<Rightarrow> 'c attributed_parcel list" where
  "landuseRun T landuseToggles circleBoxes searchRadiusKm features totalProduction =
     (case retain_loop T landuseToggles circleBoxes searchRadiusKm features [] 0 of
        (kept, totalA) \<Rightarrow> assignFertilizer kept totalA totalProduction)"

text \<open>
  The effect around \<open>run\<close>: with no land-use category enabled, or no supply point with
  finite coordinates, it reports no parcels without a query; a failed query reports no
  parcels, a cancelled one reports nothing (\<open>None\<close>). \<open>fetched\<close> is the outcome of the
  query: the features, or an error with the flag of an \<open>AbortError\<close>.
\<close>

definition LANDUSE_KEYS :: "jsstring list" where
  "LANDUSE_KEYS =
     map asc [''farmland'', ''plantation'', ''orchard'', ''vineyard'', ''greenhouse_horticulture'']"

definition landuseEffect :: "'c turf \<Rightarrow> (jsstring \<Rightarrow> bool) \<Rightarrow> center list \<Rightarrow> jsnum \<Rightarrow>
    bool + 'c osm_feature list \<Rightarrow> real \<Rightarrow> 'c attributed_parcel list option" where
  "landuseEffect T landuseToggles supplyCircleCenters searchRadiusKm fetched totalProduction =
     (if filter landuseToggles LANDUSE_KEYS = [] then Some []
      else
        (case bboxAroundCenters supplyCircleCenters searchRadiusKm of
           None \<Rightarrow> Some []
         | Some bbox \<Rightarrow>
             (case fetched of
                Inl abortError \<Rightarrow> if abortError then None else Some []
              | Inr features \<Rightarrow>
                  Some (landuseRun T landuseToggles
                          (buildCircleBBoxes supplyCircleCenters searchRadiusKm)
                          searchRadiusKm features totalProduction))))"

section \<open>String primitives of the JavaScript runtime\<close>

text \<open>
  White space as \<open>String.prototype.trim\<close>, the regular expression class \<open>\s\<close> and
  \<open>Number\<close> on a string see it: the WhiteSpace and LineTerminator code points.
\<close>

definition is_space :: "nat \<Rightarrow> bool" where
  "is_space c =
     ((0x09 \<le> c \<and> c \<le> 0x0D) \<or> c = 0x20 \<or> c = 0xA0 \<or> c = 0x1680
      \<or> (0x2000 \<le> c \<and> c \<le> 0x200A) \<or> c = 0x2028 \<or> c = 0x2029 \<or> c = 0x202F
      \<or> c = 0x205F \<or> c = 0x3000 \<or> c = 0xFEFF)"

definition trim :: "jsstring \<Rightarrow> jsstring" where
  "trim s = rev (dropWhile is_space (rev (dropWhile is_space s)))"

text \<open>\<open>s.split(sep)\<close> for a separator of one code unit; the empty string gives one empty part.\<close>

fun split_str :: "nat \<Rightarrow> jsstring \<Rightarrow> jsstring list" where
  "split_str sep [] = [[]]"
| "split_str sep (x # xs) =
     (if x = sep then [] # split_str sep xs
      else (case split_str sep xs of
              p # ps \<Rightarrow> (x # p) # ps
            | [] \<Rightarrow> [[x]]))"

text \<open>\<open>s.replace(",", ".")\<close>: a string pattern replaces the first occurrence only.\<close>

fun replace_first :: "nat \<Rightarrow> nat \<Rightarrow> jsstring \<Rightarrow> jsstring" where
  "replace_first a b [] = []"
| "replace_first a b (x # xs) = (if x = a then b # xs else x # replace_first a b xs)"

text \<open>\<open>s.indexOf(pat)\<close>, with \<open>None\<close> for -1.\<close>

fun indexOf :: "jsstring \<Rightarrow> jsstring \<Rightarrow> nat option" where
  "indexOf [] pat = (if pat = [] then Some 0 else None)"
| "indexOf (x # xs) pat =
     (if take (length pat) (x # xs) = pat then Some 0
      else map_option Suc (indexOf xs pat))"

text \<open>A global regular-expression replace of single code units, and \<open>/\s+/g\<close>.\<close>

definition replace_all :: "(nat \<Rightarrow> bool) \<Rightarrow> jsstring \<Rightarrow> jsstring \<Rightarrow> jsstring" where
  "replace_all cls rep s = concat (map (\<lambda>c. if cls c then rep else [c]) s)"

function replace_space_runs :: "jsstring \<Rightarrow> jsstring \<Rightarrow> jsstring" where
  "replace_space_runs rep [] = []"
| "replace_space_runs rep (x # xs) =
     (if is_space x then rep @ replace_space_runs rep (dropWhile is_space xs)
      else x # replace_space_runs rep xs)"
  by pat_completeness auto
termination
  by (relation "measure (\<lambda>(rep, s). length s)")
     (auto simp: length_dropWhile_le less_Suc_eq_le)

subsection \<open>Number applied to a string\<close>

text \<open>
  \<open>Number(s)\<close> follows the StringNumericLiteral grammar: surrounding white space is
  dropped; the empty string is 0; \<open>Infinity\<close> with an optional sign; a binary, octal or
  hexadecimal integer without sign; a decimal literal with optional sign, fraction and
  exponent; anything else is NaN. A decimal value too large for a double becomes an
  infinity and one too small becomes 0; any other value is kept exactly.
\<close>

definition is_digit :: "nat \<Rightarrow> bool" where
  "is_digit c = (48 \<le> c \<and> c \<le> 57)"

definition digits_value :: "nat \<Rightarrow> nat list \<Rightarrow> nat" where
  "digits_value base ds = foldl (\<lambda>acc d. acc * base + d) 0 ds"

definition hex_digit :: "nat \<Rightarrow> nat option" where
  "hex_digit c =
     (if 48 \<le> c \<and> c \<le> 57 then Some (c - 48)
      else if 65 \<le> c \<and> c \<le> 70 then Some (c - 55)
      else if 97 \<le> c \<and> c \<le> 102 then Some (c - 87)
      else None)"

definition radix_literal :: "nat \<Rightarrow> jsstring \<Rightarrow> real option" where
  "radix_literal base ds =
     (if ds \<noteq> [] \<and> list_all (\<lambda>c. case hex_digit c of Some d \<Rightarrow> d < base | None \<Rightarrow> False) ds
      then Some (real (digits_value base (map (\<lambda>c. the (hex_digit c)) ds)))
      else None)"

text \<open>The exponent part after \<open>e\<close> or \<open>E\<close>: an optional sign and at least one digit.\<close>

definition signed_integer :: "jsstring \<Rightarrow> int option" where
  "signed_integer s =
     (let (neg, ds) = (case s of
                        c # t \<Rightarrow> if c = 45 then (True, t) else if c = 43 then (False, t)
                                 else (False, s)
                      | [] \<Rightarrow> (False, s))
      in if ds \<noteq> [] \<and> list_all is_digit ds
         then Some ((if neg then -1 else 1) * int (digits_value 10 (map (\<lambda>c. c - 48) ds)))
         else None)"

definition power10 :: "int \<Rightarrow> real" where
  "power10 e = (if 0 \<le> e then 10 ^ nat e else 1 / 10 ^ nat (- e))"

definition unsigned_decimal :: "jsstring \<Rightarrow> real option" where
  "unsigned_decimal s =
     (let ip = takeWhile is_digit s;
          r1 = dropWhile is_digit s;
          dot = (r1 \<noteq> [] \<and> hd r1 = 46);
          fp = (if dot then takeWhile is_digit (tl r1) else []);
          r2 = (if dot then dropWhile is_digit (tl r1) else r1);
          ex = (if r2 = [] then Some 0
                else if hd r2 = 101 \<or> hd r2 = 69 then signed_integer (tl r2)
                else None)
      in if ip = [] \<and> fp = [] then None
         else (case ex of
                 None \<Rightarrow> None
               | Some e \<Rightarrow>
                   Some (real (digits_value 10 (map (\<lambda>c. c - 48) (ip @ fp)))
                         * power10 (e - int (length fp)))))"

text \<open>The range of a double: what rounds to an infinity, and what rounds to zero.\<close>

definition to_double_range :: "real \<Rightarrow> jsnum" where
  "to_double_range v =
     (if 2 ^ 1024 - 2 ^ 970 \<le> v then Infinity
      else if v \<le> - (2 ^ 1024 - 2 ^ 970) then NegInfinity
      else if \<bar>v\<bar> \<le> 1 / 2 ^ 1075 then Num 0
      else Num v)"

definition str_decimal :: "jsstring \<Rightarrow> jsnum" where
  "str_decimal s =
     (let (neg, u) = (case s of
                        c # t \<Rightarrow> if c = 45 then (True, t) else if c = 43 then (False, t)
                                 else (False, s)
                      | [] \<Rightarrow> (False, s))
      in if u = asc ''Infinity'' then (if neg then NegInfinity else Infinity)
         else (case unsigned_decimal u of
                 None \<Rightarrow> NaN
               | Some v \<Rightarrow> to_double_range (if neg then - v else v)))"

definition Number_str :: "jsstring \<Rightarrow> jsnum" where
  "Number_str s =
     (let t = trim s in
      if t = [] then Num 0
      else if take 2 t = asc ''0x'' \<or> take 2 t = asc ''0X'' then
        (case radix_literal 16 (drop 2 t) of Some v \<Rightarrow> to_double_range v | None \<Rightarrow> NaN)
      else if take 2 t = asc ''0o'' \<or> take 2 t = asc ''0O'' then
        (case radix_literal 8 (drop 2 t) of Some v \<Rightarrow> to_double_range v | None \<Rightarrow> NaN)
      else if take 2 t = asc ''0b'' \<or> take 2 t = asc ''0B'' then
        (case radix_literal 2 (drop 2 t) of Some v \<Rightarrow> to_double_range v | None \<Rightarrow> NaN)
      else str_decimal t)"

subsection \<open>Case mapping and canonical decomposition\<close>

text \<open>
  \<open>toUpperCase\<close>, \<open>toLowerCase\<close> and \<open>normalize("NFD")\<close> are given on the scripts the
  datasets use: Basic Latin, Latin-1 Supplement and the Greek letters U+0386 to U+03CE.
  A code unit outside this repertoire is left as it is.
\<close>

definition upper_cu :: "nat \<Rightarrow> nat list" where
  "upper_cu c =
     (if 0x61 \<le> c \<and> c \<le> 0x7A then [c - 32]
      else if c = 0xB5 then [0x39C]
      else if c = 0xDF then [0x53, 0x53]
      else if 0xE0 \<le> c \<and> c \<le> 0xFE \<and> c \<noteq> 0xF7 then [c - 32]
      else if c = 0xFF then [0x178]
      else if c = 0x390 then [0x399, 0x308, 0x301]
      else if c = 0x3AC then [0x386]
      else if 0x3AD \<le> c \<and> c \<le> 0x3AF then [c - 37]
      else if c = 0x3B0 then [0x3A5, 0x308, 0x301]
      else if c = 0x3C2 then [0x3A3]
      else if 0x3B1 \<le> c \<and> c \<le> 0x3CB then [c - 32]
      else if c = 0x3CC then [0x38C]
      else if c = 0x3CD \<or> c = 0x3CE then [c - 63]
      else [c])"

definition toUpperCase :: "jsstring \<Rightarrow> jsstring" where
  "toUpperCase s = concat (map upper_cu s)"

definition lower_cu :: "nat \<Rightarrow> nat" where
  "lower_cu c =
     (if 0x41 \<le> c \<and> c \<le> 0x5A then c + 32
      else if 0xC0 \<le> c \<and> c \<le> 0xDE \<and> c \<noteq> 0xD7 then c + 32
      else if c = 0x386 then 0x3AC
      else if 0x388 \<le> c \<and> c \<le> 0x38A then c + 37
      else if c = 0x38C then 0x3CC
      else if c = 0x38E \<or> c = 0x38F then c + 63
      else if 0x391 \<le> c \<and> c \<le> 0x3AB \<and> c \<noteq> 0x3A2 then c + 32
      else c)"

definition cased :: "nat \<Rightarrow> bool" where
  "cased c =
     ((0x41 \<le> c \<and> c \<le> 0x5A) \<or> (0x61 \<le> c \<and> c \<le> 0x7A)
      \<or> c = 0xAA \<or> c = 0xB5 \<or> c = 0xBA
      \<or> (0xC0 \<le> c \<and> c \<le> 0xFF \<and> c \<noteq> 0xD7 \<and> c \<noteq> 0xF7)
      \<or> c = 0x386 \<or> (0x388 \<le> c \<and> c \<le> 0x38A) \<or> c = 0x38C
      \<or> (0x38E \<le> c \<and> c \<le> 0x3CE \<and> c \<noteq> 0x3A2))"

definition case_ignorable :: "nat \<Rightarrow> bool" where
  "case_ignorable c =
     (c = 0x27 \<or> c = 0x2E \<or> c = 0x3A \<or> c = 0x5E \<or> c = 0x60 \<or> c = 0xA8 \<or> c = 0xAD
      \<or> c = 0xAF \<or> c = 0xB4 \<or> c = 0xB7 \<or> c = 0xB8 \<or> (0x300 \<le> c \<and> c \<le> 0x36F)
      \<or> c = 0x384 \<or> c = 0x385 \<or> c = 0x387)"

text \<open>
  Lower-casing is per code unit but for capital sigma, which becomes the final form
  when a cased letter precedes it and none follows (case-ignorable characters skipped).
\<close>

fun lower_from :: "bool \<Rightarrow> jsstring \<Rightarrow> jsstring" where
  "lower_from after_cased [] = []"
| "lower_from after_cased (c # cs) =
     (if c = 0x3A3 then
        (if after_cased \<and>
            \<not> (case dropWhile case_ignorable cs of [] \<Rightarrow> False | d # ds \<Rightarrow> cased d)
         then 0x3C2 else 0x3C3) # lower_from True cs
      else lower_cu c # lower_from (if case_ignorable c then after_cased else cased c) cs)"

definition toLowerCase :: "jsstring \<Rightarrow> jsstring" where
  "toLowerCase s = lower_from False s"

definition latin_marks :: "(nat \<times> nat list) list" where
  "latin_marks =
     [(0xC0, [0x41, 0x300]), (0xC1, [0x41, 0x301]), (0xC2, [0x41, 0x302]), (0xC3, [0x41, 0x303]),
      (0xC4, [0x41, 0x308]), (0xC5, [0x41, 0x30A]), (0xC7, [0x43, 0x327]),
      (0xC8, [0x45, 0x300]), (0xC9, [0x45, 0x301]), (0xCA, [0x45, 0x302]), (0xCB, [0x45, 0x308]),
      (0xCC, [0x49, 0x300]), (0xCD, [0x49, 0x301]), (0xCE, [0x49, 0x302]), (0xCF, [0x49, 0x308]),
      (0xD1, [0x4E, 0x303]),
      (0xD2, [0x4F, 0x300]), (0xD3, [0x4F, 0x301]), (0xD4, [0x4F, 0x302]), (0xD5, [0x4F, 0x303]),
      (0xD6, [0x4F, 0x308]),
      (0xD9, [0x55, 0x300]), (0xDA, [0x55, 0x301]), (0xDB, [0x55, 0x302]), (0xDC, [0x55, 0x308]),
      (0xDD, [0x59, 0x301]),
      (0xE0, [0x61, 0x300]), (0xE1, [0x61, 0x301]), (0xE2, [0x61, 0x302]), (0xE3, [0x61, 0x303]),
      (0xE4, [0x61, 0x308]), (0xE5, [0x61, 0x30A]), (0xE7, [0x63, 0x327]),
      (0xE8, [0x65, 0x300]), (0xE9, [0x65, 0x301]), (0xEA, [0x65, 0x302]), (0xEB, [0x65, 0x308]),
      (0xEC, [0x69, 0x300]), (0xED, [0x69, 0x301]), (0xEE, [0x69, 0x302]), (0xEF, [0x69, 0x308]),
      (0xF1, [0x6E, 0x303]),
      (0xF2, [0x6F, 0x300]), (0xF3, [0x6F, 0x301]), (0xF4, [0x6F, 0x302]), (0xF5, [0x6F, 0x303]),
      (0xF6, [0x6F, 0x308]),
      (0xF9, [0x75, 0x300]), (0xFA, [0x75, 0x301]), (0xFB, [0x75, 0x302]), (0xFC, [0x75, 0x308]),
      (0xFD, [0x79, 0x301]), (0xFF, [0x79, 0x308])]"

definition greek_marks :: "(nat \<times> nat list) list" where
  "greek_marks =
     [(0x385, [0xA8, 0x301]), (0x386, [0x391, 0x301]), (0x388, [0x395, 0x301]),
      (0x389, [0x397, 0x301]), (0x38A, [0x399, 0x301]), (0x38C, [0x39F, 0x301]),
      (0x38E, [0x3A5, 0x301]), (0x38F, [0x3A9, 0x301]), (0x390, [0x3B9, 0x308, 0x301]),
      (0x3AA, [0x399, 0x308]), (0x3AB, [0x3A5, 0x308]),
      (0x3AC, [0x3B1, 0x301]), (0x3AD, [0x3B5, 0x301]), (0x3AE, [0x3B7, 0x301]),
      (0x3AF, [0x3B9, 0x301]), (0x3B0, [0x3C5, 0x308, 0x301]),
      (0x3CA, [0x3B9, 0x308]), (0x3CB, [0x3C5, 0x308]),
      (0x3CC, [0x3BF, 0x301]), (0x3CD, [0x3C5, 0x301]), (0x3CE, [0x3C9, 0x301])]"

definition nfd_cu :: "nat \<Rightarrow> nat list" where
  "nfd_cu c =
     (if c < 0xC0 then [c]
      else if c \<le> 0xFF then (case map_of latin_marks c of Some d \<Rightarrow> d | None \<Rightarrow> [c])
      else (case map_of greek_marks c of Some d \<Rightarrow> d | None \<Rightarrow> [c]))"

definition normalizeNFD :: "jsstring \<Rightarrow> jsstring" where
  "normalizeNFD s = concat (map nfd_cu s)"

section \<open>Values read from rows and lookup tables\<close>

text \<open>
  The values the normalizer handles: \<open>undefined\<close>, \<open>null\<close>, strings, and what a property
  read on an object literal finds on \<open>Object.prototype\<close> when the literal has no own
  property of that name (\<open>Builtin name\<close>: a built-in function, for \<open>__proto__\<close> the
  prototype object itself).
\<close>

datatype jsval = Undefined | Null | Str jsstring | Builtin jsstring

definition object_prototype_names :: "jsstring list" where
  "object_prototype_names =
     map asc [''constructor'', ''__defineGetter__'', ''__defineSetter__'', ''hasOwnProperty'',
              ''__lookupGetter__'', ''__lookupSetter__'', ''isPrototypeOf'',
              ''propertyIsEnumerable'', ''toString'', ''valueOf'', ''__proto__'',
              ''toLocaleString'']"

text \<open>\<open>obj[k]\<close> on an object literal with string values.\<close>

definition literal_get :: "(jsstring \<times> jsstring) list \<Rightarrow> jsstring \<Rightarrow> jsval" where
  "literal_get obj k =
     (case map_of obj k of
        Some v \<Rightarrow> Str v
      | None \<Rightarrow> if k \<in> set object_prototype_names then Builtin k else Undefined)"

fun nullish :: "jsval \<Rightarrow> bool" where
  "nullish Undefined = True"
| "nullish Null = True"
| "nullish (Str s) = False"
| "nullish (Builtin n) = False"

fun truthy :: "jsval \<Rightarrow> bool" where
  "truthy Undefined = False"
| "truthy Null = False"
| "truthy (Str s) = (s \<noteq> [])"
| "truthy (Builtin n) = True"

text \<open>\<open>String(v)\<close>; a built-in function prints as its native source text.\<close>

fun String_of :: "jsval \<Rightarrow> jsstring" where
  "String_of Undefined = asc ''undefined''"
| "String_of Null = asc ''null''"
| "String_of (Str s) = s"
| "String_of (Builtin n) =
     (if n = asc ''__proto__'' then asc ''[object Object]''
      else asc ''function '' @ (if n = asc ''constructor'' then asc ''Object'' else n)
           @ asc ''() { [native code] }'')"

fun Number_of :: "jsval \<Rightarrow> jsnum" where
  "Number_of Undefined = NaN"
| "Number_of Null = Num 0"
| "Number_of (Str s) = Number_str s"
| "Number_of (Builtin n) = NaN"

text \<open>
  A row is an object with string-named properties. The normalizer reads fixed column
  names, none of them a property of \<open>Object.prototype\<close>, so a missing column reads as
  \<open>undefined\<close>.
\<close>

type_synonym row = "jsstring \<rightharpoonup> jsval"

definition column :: "row \<Rightarrow> string \<Rightarrow> jsval" where
  "column r k = (case r (asc k) of Some v \<Rightarrow> v | None \<Rightarrow> Undefined)"

section \<open>Record normalizer, first version of hooks/useLocationsData.js\<close>

definition ALLOWED_COUNTRIES :: "jsstring list" where
  "ALLOWED_COUNTRIES = map asc [''France'', ''Italy'', ''Hungary'', ''Greece'']"

definition COUNTRY_MAP :: "(jsstring \<times> jsstring) list" where
  "COUNTRY_MAP =
     [(asc ''FR'', asc ''France''), (asc ''IT'', asc ''Italy''), (asc ''HU'', asc ''Hungary''),
      (asc ''EL'', asc ''Greece''), (asc ''GR'', asc ''Greece''),
      (asc ''Greece'', asc ''Greece''), (asc ''France'', asc ''France''),
      (asc ''Italy'', asc ''Italy''), (asc ''Hungary'', asc ''Hungary'')]"

text \<open>\<open>COUNTRY_MAP[upper] || COUNTRY_MAP[s] || s\<close>\<close>

definition normalizeCountry :: "jsval \<Rightarrow> jsval" where
  "normalizeCountry v =
     (if nullish v then Str []
      else
        (let s = trim (String_of v) in
         if s = [] then Str []
         else
           (let upper = toUpperCase s in
            if truthy (literal_get COUNTRY_MAP upper) then literal_get COUNTRY_MAP upper
            else if truthy (literal_get COUNTRY_MAP s) then literal_get COUNTRY_MAP s
            else Str s)))"

text \<open>
  The inner \<open>norm\<close> of \<open>normalizeProvinceName\<close>: lower case, decomposed, combining marks
  U+0300 to U+036F removed, comma, underscore and hyphen turned into spaces, runs of
  white space collapsed, trimmed.
\<close>

definition province_key :: "jsstring \<Rightarrow> jsstring" where
  "province_key x =
     trim (replace_space_runs [0x20]
       (replace_all (\<lambda>c. c = 0x2C \<or> c = 0x5F \<or> c = 0x2D) [0x20]
         (replace_all (\<lambda>c. 0x300 \<le> c \<and> c \<le> 0x36F) []
           (normalizeNFD (toLowerCase x)))))"

text \<open>The lookup table \<open>MAP\<close>: Greek region names, folded, to the English names.\<close>

definition PROVINCE_MAP :: "(jsstring \<times> jsstring) list" where
  "PROVINCE_MAP =
     [([945, 964, 964, 953, 954, 951], asc ''Attica''),
      ([945, 957, 945, 964, 959, 955, 953, 954, 951, 32, 956, 945, 954, 949, 948, 959, 957, 953,
        945, 32, 952, 961, 945, 954, 951], asc ''Eastern Macedonia and Thrace''),
      ([945, 957, 945, 964, 959, 955, 953, 954, 951, 32, 956, 945, 954, 949, 948, 959, 957, 953,
        945, 32, 954, 945, 953, 32, 952, 961, 945, 954, 951],
       asc ''Eastern Macedonia and Thrace''),
      ([954, 949, 957, 964, 961, 953, 954, 951, 32, 956, 945, 954, 949, 948, 959, 957, 953, 945],
       asc ''Central Macedonia''),
      ([948, 965, 964, 953, 954, 951, 32, 956, 945, 954, 949, 948, 959, 957, 953, 945],
       asc ''Western Macedonia''),
      ([952, 949, 963, 963, 945, 955, 953, 945], asc ''Thessaly''),
      ([951, 960, 949, 953, 961, 959, 962], asc ''Epirus''),
      ([953, 959, 957, 953, 945, 32, 957, 951, 963, 953, 945], asc ''Ionian Islands''),
      ([948, 965, 964, 953, 954, 951, 32, 949, 955, 955, 945, 948, 945], asc ''Western Greece''),
      ([963, 964, 949, 961, 949, 945, 32, 949, 955, 955, 945, 948, 945], asc ''Central Greece''),
      ([960, 949, 955, 959, 960, 959, 957, 957, 951, 963, 959, 962], asc ''Peloponnese''),
      ([946, 959, 961, 949, 953, 959, 32, 945, 953, 947, 945, 953, 959], asc ''North Aegean''),
      ([957, 959, 964, 953, 959, 32, 945, 953, 947, 945, 953, 959], asc ''South Aegean''),
      ([954, 961, 951, 964, 951], asc ''Crete'')]"

text \<open>
  \<open>normalizeProvinceName\<close>: the part after the first \<open>" - "\<close>, a leading Latin A before
  a Greek letter replaced by Greek Alpha, then \<open>MAP[key] || s\<close>.
\<close>

definition normalizeProvinceName :: "jsval \<Rightarrow> jsval" where
  "normalizeProvinceName p =
     (if nullish p then Str []
      else
        (let s0 = trim (String_of p) in
         if s0 = [] then Str []
         else
           (let s1 = (case indexOf s0 (asc '' - '') of
                        Some dashIdx \<Rightarrow> trim (drop (dashIdx + 3) s0)
                      | None \<Rightarrow> s0);
                s = (case s1 of
                       a # g # rest \<Rightarrow>
                         if a = 0x41 \<and> 0x370 \<le> g \<and> g \<le> 0x3FF then 0x391 # g # rest else s1
                     | _ \<Rightarrow> s1);
                key = province_key s
            in if truthy (literal_get PROVINCE_MAP key) then literal_get PROVINCE_MAP key
               else Str s)))"

text \<open>\<open>toNum\<close> (first version).\<close>

fun toNum :: "jsval \<Rightarrow> real option" where
  "toNum Undefined = None"
| "toNum Null = None"
| "toNum (Str x) =
     (let t = trim x in
      if t = [] then None else asNum (Number_str (replace_first 0x2C 0x2E t)))"
| "toNum (Builtin n) = asNum (Number_of (Builtin n))"

fun pick :: "row \<Rightarrow> string list \<Rightarrow> jsval" where
  "pick r [] = Null"
| "pick r (k # ks) =
     (if \<not> nullish (column r k) \<and> trim (String_of (column r k)) \<noteq> [] then column r k
      else pick r ks)"

text \<open>
  \<open>parseLatLon\<close>. The block that reads the \<open>location\<close> column is \<open>location_fallback\<close>:
  it takes the current \<open>lat\<close> and \<open>lon\<close> and gives them back, possibly reassigned.
\<close>

definition location_parts :: "jsval \<Rightarrow> jsstring list" where
  "location_parts loc = filter (\<lambda>p. p \<noteq> []) (map trim (split_str 0x2C (String_of loc)))"

definition location_fallback :: "row \<Rightarrow> real option \<times> real option \<Rightarrow> real option \<times> real option" where
  "location_fallback r ll =
     (if (fst ll = None \<or> snd ll = None) \<and> \<not> nullish (column r ''location'') then
        (case location_parts (column r ''location'') of
           p0 # p1 # ps \<Rightarrow>
             (case (toNum (Str p0), toNum (Str p1)) of
                (Some a, Some b) \<Rightarrow>
                  if \<bar>a\<bar> \<le> 90 \<and> \<bar>b\<bar> \<le> 180 then (Some a, Some b)
                  else if \<bar>b\<bar> \<le> 90 \<and> \<bar>a\<bar> \<le> 180 then (Some b, Some a)
                  else ll
              | _ \<Rightarrow> ll)
         | _ \<Rightarrow> ll)
      else ll)"

definition parseLatLon :: "row \<Rightarrow> real option \<times> real option" where
  "parseLatLon r =
     (let latRaw = pick r [''lat'', ''latitude'', ''Latitude'', ''__lat''];
          lonRaw = pick r [''lon'', ''lng'', ''longitude'', ''Longitude'', ''__lon''];
          ll = location_fallback r (toNum latRaw, toNum lonRaw)
      in if fst ll = None \<or> snd ll = None then (None, None)
         else if fst ll = Some 0 \<and> snd ll = Some 0 then (None, None)
         else ll)"

text \<open>\<open>a ?? b\<close>\<close>

definition coalesce :: "jsval \<Rightarrow> jsval \<Rightarrow> jsval" where
  "coalesce a b = (if nullish a then b else a)"

definition normalizeRowCountryProvince :: "row \<Rightarrow> row" where
  "normalizeRowCountryProvince r =
     (let countryRaw =
            coalesce (pick r [''country'', ''Country''])
              (coalesce (pick r [''country_code'', ''Country_code'', ''Country Code'',
                                 ''countryCode''])
                 (Str []));
          provinceRaw = coalesce (pick r [''province'', ''Province'', ''nuts2'', ''NUTS2'']) (Str [])
      in r(asc ''country'' \<mapsto> normalizeCountry countryRaw,
           asc ''province'' \<mapsto> normalizeProvinceName provinceRaw))"

text \<open>\<open>matchesCountryProvince(row, {country, province})\<close>; \<open>a || ""\<close> is \<open>or_empty\<close>.\<close>

definition or_empty :: "jsval \<Rightarrow> jsval" where
  "or_empty a = (if truthy a then a else Str [])"

definition matchesCountryProvince :: "row \<Rightarrow> jsval \<Rightarrow> jsval \<Rightarrow> bool" where
  "matchesCountryProvince r country province =
     (let rowCountry =
            normalizeCountry (coalesce (column r ''country'')
                                (coalesce (column r ''country_code'') (Str [])));
          rowProvince = normalizeProvinceName (coalesce (column r ''province'') (Str []));
          wantCountry = normalizeCountry (or_empty country);
          wantProvince = normalizeProvinceName (or_empty province)
      in if truthy wantCountry \<and> rowCountry \<noteq> wantCountry then False
         else if truthy wantProvince \<and> rowProvince \<noteq> wantProvince then False
         else True)"

text \<open>
  The rows \<open>useLocationGroup\<close> (first version) keeps of a loaded dataset: normalized,
  filtered by the selected region, and located. A kept row carries \<open>__lat\<close> and \<open>__lon\<close>.
\<close>

record located_row =
  row_fields :: row
  located_lat :: real
  located_lon :: real

definition locate :: "row \<Rightarrow> located_row option" where
  "locate r =
     (case parseLatLon r of
        (Some la, Some lo) \<Rightarrow> Some \<lparr>row_fields = r, located_lat = la, located_lon = lo\<rparr>
      | _ \<Rightarrow> None)"

definition useLocationGroup :: "row list \<Rightarrow> jsval \<Rightarrow> jsval \<Rightarrow> located_row list" where
  "useLocationGroup raw country province =
     List.map_filter locate
       (filter (\<lambda>r. matchesCountryProvince r country province)
          (map normalizeRowCountryProvince raw))"

text \<open>
  \<open>useCountryProvinceIndex\<close> (first version). The loop over all rows fills
  \<open>provincesByCountry\<close>: per country, in insertion order, the provinces without
  repetition. \<open>Array.prototype.sort\<close> with the \<open>localeCompare\<close> comparator belongs to the
  runtime and is a parameter: \<open>None\<close> when the comparator throws.
\<close>

fun add_province :: "jsstring \<Rightarrow> jsval \<Rightarrow> (jsstring \<times> jsval list) list \<Rightarrow>
    (jsstring \<times> jsval list) list" where
  "add_province c p [] = [(c, [p])]"
| "add_province c p ((c', ps) # rest) =
     (if c' = c then (c', if p \<in> set ps then ps else ps @ [p]) # rest
      else (c', ps) # add_province c p rest)"

fun provinces_loop :: "row list \<Rightarrow> (jsstring \<times> jsval list) list \<Rightarrow> (jsstring \<times> jsval list) list" where
  "provinces_loop [] acc = acc"
| "provinces_loop (raw # rest) acc =
     (let r = normalizeRowCountryProvince raw;
          c = column r ''country'';
          p = column r ''province''
      in case c of
           Str cs \<Rightarrow>
             if cs = [] \<or> cs \<notin> set ALLOWED_COUNTRIES then provinces_loop rest acc
             else if \<not> truthy p then provinces_loop rest acc
             else provinces_loop rest (add_province cs p acc)
         | _ \<Rightarrow> provinces_loop rest acc)"

datatype index_error = Load_failed | Sort_failed

fun sort_provinces :: "(jsval list \<Rightarrow> jsval list option) \<Rightarrow> (jsstring \<times> jsval list) list \<Rightarrow>
    (jsstring \<times> jsval list) list option" where
  "sort_provinces sortfn [] = Some []"
| "sort_provinces sortfn ((c, ps) # rest) =
     (case sortfn ps of
        None \<Rightarrow> None
      | Some sorted_ps \<Rightarrow> map_option (\<lambda>out. (c, sorted_ps) # out) (sort_provinces sortfn rest))"

text \<open>
  A dataset is \<open>None\<close> when its download fails. A failing base dataset fails the index;
  a failing extra dataset is skipped.
\<close>

definition useCountryProvinceIndex ::
  "(jsval list \<Rightarrow> jsval list option) \<Rightarrow> (jsstring list \<Rightarrow> jsstring list) \<Rightarrow>
   row list option \<Rightarrow> row list option list \<Rightarrow>
   index_error + (jsstring list \<times> (jsstring \<times> jsval list) list)" where
  "useCountryProvinceIndex sortfn sort_countries wtp extras =
     (case wtp of
        None \<Rightarrow> Inl Load_failed
      | Some wtpRows \<Rightarrow>
          (let allRows = wtpRows @ concat (map (\<lambda>d. case d of Some rs \<Rightarrow> rs | None \<Rightarrow> []) extras);
               provincesByCountry = provinces_loop allRows [];
               countries = sort_countries (map fst provincesByCountry)
           in case sort_provinces sortfn
                     (map (\<lambda>c. (c, case map_of provincesByCountry c of
                                        Some ps \<Rightarrow> ps | None \<Rightarrow> []))
                        countries) of
                None \<Rightarrow> Inl Sort_failed
              | Some out \<Rightarrow> Inr (countries, out)))"

section \<open>Record normalizer, second version of hooks/useLocationsData.js\<close>

subsection \<open>CSV parsing\<close>

text \<open>
  \<open>splitCSVLine\<close>: the loop over the line's code units with the fields pushed so far,
  the current field and the quote flag. A quote followed by a quote is consumed as a
  pair, wherever it stands.
\<close>

fun split_loop :: "jsstring \<Rightarrow> jsstring list \<Rightarrow> jsstring \<Rightarrow> bool \<Rightarrow> jsstring list" where
  "split_loop [] out cur inQuotes = out @ [cur]"
| "split_loop [ch] out cur inQuotes =
     (if ch = 0x22 then split_loop [] out cur (\<not> inQuotes)
      else if ch = 0x2C \<and> \<not> inQuotes then split_loop [] (out @ [cur]) [] inQuotes
      else split_loop [] out (cur @ [ch]) inQuotes)"
| "split_loop (ch # nxt # rest) out cur inQuotes =
     (if ch = 0x22 \<and> nxt = 0x22 then split_loop rest out (cur @ [0x22]) inQuotes
      else if ch = 0x22 then split_loop (nxt # rest) out cur (\<not> inQuotes)
      else if ch = 0x2C \<and> \<not> inQuotes then split_loop (nxt # rest) (out @ [cur]) [] inQuotes
      else split_loop (nxt # rest) out (cur @ [ch]) inQuotes)"

definition splitCSVLine :: "jsstring \<Rightarrow> jsstring list" where
  "splitCSVLine line = split_loop line [] [] False"

text \<open>\<open>\w\<close> of a regular expression without flags.\<close>

definition word_char :: "nat \<Rightarrow> bool" where
  "word_char c =
     ((0x30 \<le> c \<and> c \<le> 0x39) \<or> (0x41 \<le> c \<and> c \<le> 0x5A) \<or> c = 0x5F
      \<or> (0x61 \<le> c \<and> c \<le> 0x7A))"

definition normalizeHeader :: "jsstring \<Rightarrow> jsstring" where
  "normalizeHeader h =
     replace_all (\<lambda>c. \<not> word_char c) []
       (replace_space_runs [0x5F] (toLowerCase (trim h)))"

text \<open>
  \<open>row[h] = value\<close> on the fresh object \<open>{}\<close>: an assignment to \<open>__proto__\<close> goes to the
  inherited setter, which ignores a string, and creates no property.
\<close>

definition assign :: "row \<Rightarrow> jsstring \<Rightarrow> jsstring \<Rightarrow> row" where
  "assign r h v = (if h = asc ''__proto__'' then r else r(h \<mapsto> Str v))"

text \<open>\<open>headers.forEach((h, i) => { row[h] = (cols[i] ?? "").trim(); })\<close>\<close>

fun fill_row :: "jsstring list \<Rightarrow> nat \<Rightarrow> jsstring list \<Rightarrow> row \<Rightarrow> row" where
  "fill_row [] i cols r = r"
| "fill_row (h # hs) i cols r =
     fill_row hs (Suc i) cols
       (assign r h (trim (if i < length cols then cols ! i else [])))"

definition parseCSV :: "jsstring \<Rightarrow> row list" where
  "parseCSV text =
     (let lines = filter (\<lambda>l. l \<noteq> []) (split_str 0x0A (filter (\<lambda>c. c \<noteq> 0x0D) text)) in
      case lines of
        header # data \<Rightarrow>
          (if data = [] then []
           else
             (let headers = map normalizeHeader (splitCSVLine header) in
              map (\<lambda>line. fill_row headers 0 (splitCSVLine line) Map.empty) data))
      | _ \<Rightarrow> [])"

subsection \<open>Field picking\<close>

text \<open>\<open>toNum\<close> (second version): \<open>Number(String(v).replace(",", "."))\<close>.\<close>

definition toNum_v2 :: "jsval \<Rightarrow> real option" where
  "toNum_v2 v = asNum (Number_str (replace_first 0x2C 0x2E (String_of v)))"

text \<open>\<open>norm\<close>: \<open>String(v ?? "").trim()\<close>.\<close>

definition norm_v2 :: "jsval \<Rightarrow> jsstring" where
  "norm_v2 v = trim (String_of (coalesce v (Str [])))"

text \<open>\<open>a || b\<close> and, on the results of \<open>toNum\<close>, \<open>a ?? b\<close>.\<close>

definition js_or :: "jsval \<Rightarrow> jsval \<Rightarrow> jsval" where
  "js_or a b = (if truthy a then a else b)"

definition orelse :: "'a option \<Rightarrow> 'a option \<Rightarrow> 'a option" where
  "orelse a b = (case a of Some x \<Rightarrow> Some x | None \<Rightarrow> b)"

definition parseLatLonFromLocation :: "jsval \<Rightarrow> real option \<times> real option" where
  "parseLatLonFromLocation location =
     (let raw = norm_v2 location in
      if raw = [] then (None, None)
      else
        (case map trim (split_str 0x2C raw) of
           p0 # p1 # ps \<Rightarrow> (toNum_v2 (Str p0), toNum_v2 (Str p1))
         | _ \<Rightarrow> (None, None)))"

definition location_column :: "row \<Rightarrow> jsval" where
  "location_column r =
     js_or (column r ''location'')
       (js_or (column r ''coordinates'')
          (js_or (column r ''coordinates_lat_long'') (column r ''coordinates_lat_long_'')))"

definition pickLat :: "row \<Rightarrow> real option" where
  "pickLat r =
     orelse (toNum_v2 (column r ''lat''))
       (orelse (toNum_v2 (column r ''latitude''))
          (orelse (toNum_v2 (column r ''Latitude''))
             (orelse (toNum_v2 (column r ''y''))
                (fst (parseLatLonFromLocation (location_column r))))))"

definition pickLon :: "row \<Rightarrow> real option" where
  "pickLon r =
     orelse (toNum_v2 (column r ''lon''))
       (orelse (toNum_v2 (column r ''lng''))
          (orelse (toNum_v2 (column r ''longitude''))
             (orelse (toNum_v2 (column r ''Longitude''))
                (orelse (toNum_v2 (column r ''x''))
                   (snd (parseLatLonFromLocation (location_column r)))))))"

text \<open>
  \<open>parseCountryProvinceFromRegion\<close>: the last comma-separated part is the country, the
  parts before it, joined by \<open>", "\<close>, the province.
\<close>

fun join_comma :: "jsstring list \<Rightarrow> jsstring" where
  "join_comma [] = []"
| "join_comma [p] = p"
| "join_comma (p # q # ps) = p @ asc '', '' @ join_comma (q # ps)"

definition parseCountryProvinceFromRegion :: "jsval \<Rightarrow> jsval \<times> jsstring" where
  "parseCountryProvinceFromRegion region =
     (let raw = norm_v2 region in
      if raw = [] then (Str [], [])
      else
        (let parts = filter (\<lambda>p. p \<noteq> []) (map trim (split_str 0x2C raw)) in
         case parts of
           [] \<Rightarrow> (Undefined, [])
         | [p] \<Rightarrow> (Str [], p)
         | _ \<Rightarrow> (Str (last parts), join_comma (butlast parts))))"

definition pickCountry :: "row \<Rightarrow> jsval" where
  "pickCountry r =
     (let direct = norm_v2 (js_or (column r ''country'')
                      (js_or (column r ''country_code'')
                         (js_or (column r ''cntr'')
                            (js_or (column r ''cntr_code'') (column r ''cntr_code_'')))))
      in if direct \<noteq> [] then Str direct
         else fst (parseCountryProvinceFromRegion
                     (js_or (column r ''p2green_region'') (column r ''p2greenregion''))))"

definition pickProvince :: "row \<Rightarrow> jsstring" where
  "pickProvince r =
     (let direct = norm_v2 (js_or (column r ''province'')
                      (js_or (column r ''nuts_name'')
                         (js_or (column r ''nuts2'')
                            (js_or (column r ''region'') (column r ''state'')))))
      in if direct \<noteq> [] then direct
         else snd (parseCountryProvinceFromRegion
                     (js_or (column r ''p2green_region'') (column r ''p2greenregion''))))"

subsection \<open>Country locking and region matching\<close>

definition ALLOWED_COUNTRY_CODES :: "jsstring list" where
  "ALLOWED_COUNTRY_CODES = map asc [''FR'', ''IT'', ''HU'', ''GR'']"

definition ALLOWED_COUNTRY_NAMES :: "jsstring list" where
  "ALLOWED_COUNTRY_NAMES = map asc [''france'', ''italy'', ''hungary'', ''greece'']"

definition CODE_TO_NAME :: "(jsstring \<times> jsstring) list" where
  "CODE_TO_NAME =
     [(asc ''FR'', asc ''France''), (asc ''IT'', asc ''Italy''), (asc ''HU'', asc ''Hungary''),
      (asc ''GR'', asc ''Greece'')]"

definition NAME_TO_CODE :: "(jsstring \<times> jsstring) list" where
  "NAME_TO_CODE =
     [(asc ''france'', asc ''FR''), (asc ''italy'', asc ''IT''), (asc ''hungary'', asc ''HU''),
      (asc ''greece'', asc ''GR'')]"

definition normalizeCountryToCode :: "jsval \<Rightarrow> jsval" where
  "normalizeCountryToCode v =
     (let s = norm_v2 v in
      if s = [] then Str []
      else if length s = 2 then Str (toUpperCase s)
      else or_empty (literal_get NAME_TO_CODE (toLowerCase s)))"

definition displayCountry :: "jsval \<Rightarrow> jsval" where
  "displayCountry v =
     (let s = norm_v2 v in
      if s = [] then Str []
      else if length s = 2 then
        (if truthy (literal_get CODE_TO_NAME (toUpperCase s))
         then literal_get CODE_TO_NAME (toUpperCase s) else Str s)
      else Str s)"

definition isAllowedCountry :: "jsval \<Rightarrow> bool" where
  "isAllowedCountry v =
     (let s = norm_v2 v in
      if s = [] then False
      else if length s = 2 then toUpperCase s \<in> set ALLOWED_COUNTRY_CODES
      else toLowerCase s \<in> set ALLOWED_COUNTRY_NAMES)"

definition countryMatches :: "jsval \<Rightarrow> jsval \<Rightarrow> bool" where
  "countryMatches rowCountry selectedCountry =
     (let row = norm_v2 rowCountry;
          sel = norm_v2 selectedCountry
      in if sel = [] then True
         else
           (let rowCode = js_or (normalizeCountryToCode (Str row))
                            (if length row = 2 then Str (toUpperCase row) else Str []);
                selCode = js_or (normalizeCountryToCode (Str sel))
                            (if length sel = 2 then Str (toUpperCase sel) else Str [])
            in if truthy rowCode \<and> truthy selCode then rowCode = selCode
               else toLowerCase row = toLowerCase sel))"

definition provinceMatches :: "jsval \<Rightarrow> jsval \<Rightarrow> bool" where
  "provinceMatches rowProvince selectedProvince =
     (let a = toLowerCase (norm_v2 rowProvince);
          b = toLowerCase (norm_v2 selectedProvince)
      in if b = [] then True else a = b)"

text \<open>
  The rows \<open>useLocationGroup\<close> (second version) keeps of the parsed dataset: filtered by
  country, then by province, given \<open>lat\<close> and \<open>lon\<close>, and kept when neither is \<open>null\<close>.
\<close>

definition locate_v2 :: "row \<Rightarrow> located_row option" where
  "locate_v2 r =
     (case (pickLat r, pickLon r) of
        (Some la, Some lo) \<Rightarrow> Some \<lparr>row_fields = r, located_lat = la, located_lon = lo\<rparr>
      | _ \<Rightarrow> None)"

definition useLocationGroup_v2 :: "row list \<Rightarrow> jsval \<Rightarrow> jsval \<Rightarrow> located_row list" where
  "useLocationGroup_v2 all country province =
     List.map_filter locate_v2
       (filter (\<lambda>r. provinceMatches (Str (pickProvince r)) province)
          (filter (\<lambda>r. countryMatches (pickCountry r) country) all))"

text \<open>
  \<open>useCountryProvinceIndex\<close> (second version): one dataset is read. \<open>map\<close> and \<open>cset\<close>
  keep insertion order; the result lists the sorted countries, each with its sorted
  provinces. The runtime's sort is a parameter, as in the first version.
\<close>

fun index_loop_v2 :: "row list \<Rightarrow> (jsval \<times> jsval list) list \<Rightarrow> (jsval \<times> jsval list) list" where
  "index_loop_v2 [] acc = acc"
| "index_loop_v2 (r # rest) acc =
     (let cRaw = pickCountry r;
          p = pickProvince r
      in if \<not> truthy cRaw \<or> p = [] then index_loop_v2 rest acc
         else if \<not> isAllowedCountry cRaw then index_loop_v2 rest acc
         else
           (let cDisp = displayCountry cRaw in
            index_loop_v2 rest
              (case map_of acc cDisp of
                 None \<Rightarrow> acc @ [(cDisp, [Str p])]
               | Some ps \<Rightarrow>
                   map (\<lambda>(c, qs). if c = cDisp \<and> Str p \<notin> set qs then (c, qs @ [Str p])
                                   else (c, qs)) acc)))"

definition useCountryProvinceIndex_v2 ::
  "(jsval list \<Rightarrow> jsval list option) \<Rightarrow> row list option \<Rightarrow>
   index_error + (jsval list \<times> (jsval \<times> jsval list) list)" where
  "useCountryProvinceIndex_v2 sortfn csv =
     (case csv of
        None \<Rightarrow> Inl Load_failed
      | Some rows \<Rightarrow>
          (let m = index_loop_v2 rows [] in
           case sortfn (map fst m) of
             None \<Rightarrow> Inl Sort_failed
           | Some sortedCountries \<Rightarrow>
               (case those (map (\<lambda>c. map_option (\<lambda>arr. (c, arr))
                                       (sortfn (case map_of m c of Some ps \<Rightarrow> ps | None \<Rightarrow> [])))
                                 sortedCountries) of
                  None \<Rightarrow> Inl Sort_failed
                | Some normalized \<Rightarrow> Inr (sortedCountries, normalized))))"

section \<open>The region scenario of the specification\<close>

text \<open>The province name of the scenario, with its first letter U+00CE.\<close>

definition ile_de_france :: jsstring where
  "ile_de_france = 0xCE # asc ''le-de-France''"

text \<open>The two dataset rows of the scenario.\<close>

definition row_FR :: row where
  "row_FR = [asc ''country'' \<mapsto> Str (asc ''FR''), asc ''province'' \<mapsto> Str ile_de_france,
             asc ''lat'' \<mapsto> Str (asc ''48.85''), asc ''lon'' \<mapsto> Str (asc ''2.35''),
             asc ''kg_n_per_year'' \<mapsto> Str (asc ''1000'')]"

definition row_France :: row where
  "row_France = [asc ''country'' \<mapsto> Str (asc ''France''),
                 asc ''province'' \<mapsto> Str (asc ''ile de france''),
                 asc ''lat'' \<mapsto> Str (asc ''48.86''), asc ''lon'' \<mapsto> Str (asc ''2.36''),
                 asc ''kg_n_per_year'' \<mapsto> Str (asc ''500'')]"

section \<open>Properties of the retry loop\<close>





text \<open>Every delay slept between attempts is at least 1.5 and less than 9.4 seconds.\<close>

lemma backoff_bounded:
  assumes "0 \<le> rnd" and "rnd < 1"
  shows "1500 \<le> backoff attempt rnd \<and> backoff attempt rnd < 9400"
proof -
  define m :: real where "m = min (1500 * 2 ^ attempt) 9000"
  have "(1::real) \<le> 2 ^ attempt" by simp
  then have "(1500::real) \<le> 1500 * 2 ^ attempt" by simp
  then have lo: "1500 \<le> m" by (simp add: m_def)
  have hi: "m \<le> 9000" by (simp add: m_def)
  have "backoff attempt rnd = m + rnd * 400" by (simp add: backoff_def m_def)
  then show ?thesis using lo hi assms by simp
qed



section \<open>Properties of the catchment and of the attribution\<close>

lemma buildCircleBBoxes_degenerate:
  "centers = [] \<or> degenerate_radius radiusKm \<Longrightarrow> buildCircleBBoxes centers radiusKm = []"
  by (cases radiusKm) auto

lemma centroidInsideAnyCircle_no_boxes:
  "\<not> centroidInsideAnyCircle T poly [] radiusKm"
  by (cases radiusKm) (auto split: option.splits prod.splits)

lemma centroidInsideAnyCircle_degenerate:
  "degenerate_radius radiusKm \<Longrightarrow> \<not> centroidInsideAnyCircle T poly circleBoxes radiusKm"
  by (cases radiusKm) auto

lemma retained_outside:
  "(\<forall>g. \<not> centroidInsideAnyCircle T g circleBoxes radiusKm) \<Longrightarrow>
   retained T landuseToggles circleBoxes radiusKm f = None"
  by (simp add: retained_def split: option.splits)

lemma retain_loop_outside:
  "(\<forall>g. \<not> centroidInsideAnyCircle T g circleBoxes radiusKm) \<Longrightarrow>
   retain_loop T landuseToggles circleBoxes radiusKm fs kept totalA = (kept, totalA)"
  by (induction fs) (simp_all add: retained_outside)

text \<open>
  Claim C7. When the point set is empty, or the radius is not a finite number or not
  positive, \<open>buildCircleBBoxes\<close> builds no circle, \<open>centroidInsideAnyCircle\<close> is false
  for every candidate geometry, and the first loop of \<open>run\<close> retains no parcel and
  sums a total area of zero, whatever the fetched features are; the effect reports no
  parcels, or reports nothing when it was cancelled.
\<close>

theorem degenerate_catchment_empty:
  assumes "centers = [] \<or> degenerate_radius radiusKm"
  shows "buildCircleBBoxes centers radiusKm = []
       \<and> (\<forall>poly. \<not> centroidInsideAnyCircle T poly (buildCircleBBoxes centers radiusKm) radiusKm)
       \<and> retain_loop T landuseToggles (buildCircleBBoxes centers radiusKm) radiusKm features [] 0
           = ([], 0)
       \<and> landuseRun T landuseToggles (buildCircleBBoxes centers radiusKm) radiusKm features
           totalProduction = []
       \<and> (landuseEffect T landuseToggles centers radiusKm fetched totalProduction = None
          \<or> landuseEffect T landuseToggles centers radiusKm fetched totalProduction = Some [])"
proof -
  have e: "buildCircleBBoxes centers radiusKm = []"
    using assms by (rule buildCircleBBoxes_degenerate)
  have out: "\<forall>poly. \<not> centroidInsideAnyCircle T poly (buildCircleBBoxes centers radiusKm) radiusKm"
    by (simp add: e centroidInsideAnyCircle_no_boxes)
  have l: "retain_loop T landuseToggles (buildCircleBBoxes centers radiusKm) radiusKm fs [] 0
           = ([], 0)" for fs
    using out by (rule retain_loop_outside)
  have r: "landuseRun T landuseToggles (buildCircleBBoxes centers radiusKm) radiusKm fs
             totalProduction = []" for fs
    using l [of fs] by (simp add: landuseRun_def assignFertilizer_def)
  have eff: "landuseEffect T landuseToggles centers radiusKm fetched totalProduction = None
          \<or> landuseEffect T landuseToggles centers radiusKm fetched totalProduction = Some []"
    using r by (auto simp: landuseEffect_def split: option.splits sum.splits)
  show ?thesis using e out l r eff by simp
qed

theorem degenerate_catchment_empty_witness:
  "landuseRun
     \<lparr>turf_centroid = (\<lambda>g. Some (Num 2, Num 0)), turf_distance = (\<lambda>a b. 0),
      turf_area = (\<lambda>g. Num 100)\<rparr>
     (\<lambda>l. True)
     (buildCircleBBoxes [\<lparr>lat = Num 0, lon = Num 2\<rparr>] (Num 0)) (Num 0)
     [\<lparr>properties_landuse = Some (asc ''farmland''), tags_landuse = None,
       geometry = Some \<lparr>gtype = Polygon, coordinates = ()\<rparr>\<rparr>] 1000 = []
   \<and> buildCircleBBoxes [] (Num 2) = []
   \<and> buildCircleBBoxes [\<lparr>lat = Num 0, lon = Num 2\<rparr>] NaN = []"
  using degenerate_catchment_empty [of "[\<lparr>lat = Num 0, lon = Num 2\<rparr>]" "Num 0"
          "\<lparr>turf_centroid = (\<lambda>g. Some (Num 2, Num 0)), turf_distance = (\<lambda>a b. 0),
            turf_area = (\<lambda>g. Num 100)\<rparr>"
          "\<lambda>l. True"
          "[\<lparr>properties_landuse = Some (asc ''farmland''), tags_landuse = None,
             geometry = Some \<lparr>gtype = Polygon, coordinates = ()\<rparr>\<rparr>]" 1000]
        degenerate_catchment_empty [of "[]" "Num 2"]
        degenerate_catchment_empty [of "[\<lparr>lat = Num 0, lon = Num 2\<rparr>]" NaN]
  by simp

text \<open>The same point and parcel with a radius of 2 km: the parcel is retained.\<close>

lemma positive_radius_retains:
  "map area (landuseRun
     \<lparr>turf_centroid = (\<lambda>g. Some (Num 2, Num 0)), turf_distance = (\<lambda>a b. 0),
      turf_area = (\<lambda>g. Num 100)\<rparr>
     (\<lambda>l. True)
     (buildCircleBBoxes [\<lparr>lat = Num 0, lon = Num 2\<rparr>] (Num 2)) (Num 2)
     [\<lparr>properties_landuse = Some (asc ''farmland''), tags_landuse = None,
       geometry = Some \<lparr>gtype = Polygon, coordinates = ()\<rparr>\<rparr>] 1000) = [100]"
  by (simp add: landuseRun_def retained_def assignFertilizer_def cos_or_1_def asc_def
        parcel.defs attributed_parcel.defs Let_def)









section \<open>Evaluating the normalizer on given rows\<close>

text \<open>The unfoldings that evaluate the definitions above on a concrete input.\<close>

lemmas string_defs = trim_def is_space_def asc_def

lemmas number_defs = Number_str_def str_decimal_def unsigned_decimal_def to_double_range_def
  power10_def signed_integer_def digits_value_def is_digit_def radix_literal_def hex_digit_def

lemmas case_defs = toUpperCase_def upper_cu_def toLowerCase_def lower_cu_def cased_def
  case_ignorable_def

lemmas lookup_defs = literal_get_def object_prototype_names_def

lemmas csv_defs = parseCSV_def splitCSVLine_def normalizeHeader_def assign_def word_char_def
  replace_all_def

lemmas pick_v2_defs = pickLat_def pickLon_def toNum_v2_def orelse_def column_def
  parseLatLonFromLocation_def location_column_def js_or_def norm_v2_def coalesce_def

lemmas region_v2_defs = pickCountry_def pickProvince_def parseCountryProvinceFromRegion_def
  countryMatches_def provinceMatches_def normalizeCountryToCode_def displayCountry_def
  isAllowedCountry_def or_empty_def NAME_TO_CODE_def CODE_TO_NAME_def
  ALLOWED_COUNTRY_CODES_def ALLOWED_COUNTRY_NAMES_def js_or_def norm_v2_def coalesce_def column_def

lemmas region_v1_defs = normalizeRowCountryProvince_def matchesCountryProvince_def
  normalizeCountry_def normalizeProvinceName_def province_key_def normalizeNFD_def nfd_cu_def
  latin_marks_def greek_marks_def replace_all_def COUNTRY_MAP_def PROVINCE_MAP_def
  ALLOWED_COUNTRIES_def coalesce_def or_empty_def column_def

lemmas latlon_v1_defs = parseLatLon_def location_fallback_def location_parts_def column_def

section \<open>Numeric field parsing\<close>

lemma dropWhile_rev_dropWhile_aux:
  assumes "y = [] \<or> \<not> P (hd y)"
  shows "dropWhile P (rev (dropWhile P (rev y))) = rev (dropWhile P (rev y))"
proof (cases y)
  case Nil
  then show ?thesis by simp
next
  case (Cons a z)
  then have na: "\<not> P a" using assms by simp
  have "rev (dropWhile P (rev (a # z))) \<noteq> []"
    using na by (simp add: dropWhile_append)
  moreover have "hd (rev (dropWhile P (rev (a # z)))) = a"
    using na by (simp add: dropWhile_append3 hd_append hd_rev last_rev split: if_splits)
  ultimately show ?thesis
    using na Cons by (cases "rev (dropWhile P (rev (a # z)))") auto
qed

lemma dropWhile_rev_dropWhile:
  "dropWhile P (rev (dropWhile P (rev (dropWhile P x)))) = rev (dropWhile P (rev (dropWhile P x)))"
proof (rule dropWhile_rev_dropWhile_aux)
  show "dropWhile P x = [] \<or> \<not> P (hd (dropWhile P x))"
    using hd_dropWhile [of P x] by blast
qed

lemma trim_idem: "trim (trim x) = trim x"
  by (simp add: trim_def dropWhile_rev_dropWhile dropWhile_idem)

lemma trim_empty: "trim [] = []"
  by (simp add: trim_def)


text \<open>
  The first version of \<open>toNum\<close> is a total function into an option; it gives \<open>null\<close>
  for a missing value and for every blank string, reads both decimal separators, and
  gives \<open>null\<close> for text that is no number.
\<close>

lemma toNum_missing: "toNum Undefined = None \<and> toNum Null = None"
  by simp

lemma toNum_blank: "trim s = [] \<Longrightarrow> toNum (Str s) = None"
  by simp

lemma toNum_separators:
  "toNum (Str (asc ''37,95'')) = Some 37.95 \<and> toNum (Str (asc ''37.95'')) = Some 37.95
   \<and> toNum (Str (asc ''abc'')) = None"
  by (simp add: string_defs number_defs Let_def)

text \<open>
  In both versions a comma stands for the decimal point: a string with one comma reads
  as the same string with a point in its place.
\<close>

lemma replace_first_none: "a \<notin> set xs \<Longrightarrow> replace_first a b xs = xs"
  by (induction xs) auto

lemma replace_first_at: "a \<notin> set xs \<Longrightarrow> replace_first a b (xs @ a # ys) = xs @ b # ys"
  by (induction xs) auto

lemma dropWhile_before:
  "\<not> P c \<Longrightarrow> dropWhile P (xs @ c # ys) = dropWhile P xs @ c # ys"
  by (induction xs) auto

lemma trim_around:
  assumes "\<not> is_space c"
  shows "trim (xs @ c # ys) = dropWhile is_space xs @ c # rev (dropWhile is_space (rev ys))"
proof -
  have "rev (dropWhile is_space xs @ c # ys) = rev ys @ c # rev (dropWhile is_space xs)"
    by simp
  then show ?thesis
    using assms by (simp add: trim_def dropWhile_before)
qed

lemma toNum_comma_as_dot:
  assumes "0x2C \<notin> set a" and "0x2C \<notin> set b"
  shows "toNum (Str (a @ 0x2C # b)) = toNum (Str (a @ 0x2E # b))"
proof -
  have c: "\<not> is_space 0x2C" and d: "\<not> is_space 0x2E"
    by (simp_all add: is_space_def)
  have na: "0x2C \<notin> set (dropWhile is_space a)"
    using assms(1) set_dropWhileD by fastforce
  have nb: "0x2C \<notin> set (rev (dropWhile is_space (rev b)))"
    using assms(2) set_dropWhileD by fastforce
  have "replace_first 0x2C 0x2E (trim (a @ 0x2C # b)) = trim (a @ 0x2E # b)"
    using na by (simp add: trim_around [OF c] trim_around [OF d] replace_first_at)
  moreover have "replace_first 0x2C 0x2E (trim (a @ 0x2E # b)) = trim (a @ 0x2E # b)"
    using na nb by (simp add: trim_around [OF d] replace_first_none)
  moreover have "trim (a @ 0x2C # b) \<noteq> []" "trim (a @ 0x2E # b) \<noteq> []"
    by (simp_all add: trim_around [OF c] trim_around [OF d])
  ultimately show ?thesis by simp
qed

lemma toNum_v2_comma_as_dot:
  assumes "0x2C \<notin> set a" and "0x2C \<notin> set b"
  shows "toNum_v2 (Str (a @ 0x2C # b)) = toNum_v2 (Str (a @ 0x2E # b))"
  using assms by (simp add: toNum_v2_def replace_first_at replace_first_none)

text \<open>
  Claim C8, on the second version of \<open>toNum\<close>: it reads both separators and gives
  \<open>null\<close> for a missing column and for text that is no number, but for the empty
  string, and for a string of blanks, it gives the number 0, where the first version
  gives \<open>null\<close>.
\<close>

theorem toNum_v2_empty_is_zero:
  "toNum_v2 (Str []) = Some 0 \<and> toNum_v2 (Str (asc '' '')) = Some 0
   \<and> toNum (Str []) = None \<and> toNum (Str (asc '' '')) = None
   \<and> toNum_v2 (Str (asc ''37,95'')) = Some 37.95 \<and> toNum_v2 (Str (asc ''abc'')) = None
   \<and> toNum_v2 Undefined = None"
  by (simp add: toNum_v2_def string_defs number_defs Let_def)

section \<open>Coordinate resolution\<close>

text \<open>
  First version: \<open>parseLatLon\<close> gives both coordinates or neither, and never the pair
  (0, 0), whichever columns the coordinates come from; so no row kept by
  \<open>useLocationGroup\<close> lies at (0, 0).
\<close>

lemma parseLatLon_both_or_none:
  "parseLatLon r = (None, None)
   \<or> (\<exists>la lo. parseLatLon r = (Some la, Some lo) \<and> \<not> (la = 0 \<and> lo = 0))"
  by (cases "location_fallback r
        (toNum (pick r [''lat'', ''latitude'', ''Latitude'', ''__lat'']),
         toNum (pick r [''lon'', ''lng'', ''longitude'', ''Longitude'', ''__lon'']))")
     (auto simp: parseLatLon_def Let_def)

lemma locate_not_origin:
  "locate r = Some l \<Longrightarrow> \<not> (located_lat l = 0 \<and> located_lon l = 0)"
  using parseLatLon_both_or_none [of r]
  by (auto simp: locate_def split: option.splits prod.splits)

lemma useLocationGroup_not_origin:
  "l \<in> set (useLocationGroup raw country province) \<Longrightarrow>
   \<not> (located_lat l = 0 \<and> located_lon l = 0)"
  by (auto simp: useLocationGroup_def List.map_filter_def dest: locate_not_origin)

text \<open>
  Claim C4, on the second version: \<open>pickLat\<close> and \<open>pickLon\<close> have no test for the pair
  (0, 0). The dataset with header \<open>lat,lon\<close> and the one data line \<open>0,0\<close> gives one point
  at (0, 0), and so does a row whose \<open>location\<close> column is \<open>0, 0\<close>; the first version
  drops both rows.
\<close>

theorem origin_kept_by_second_version:
  "parseCSV (asc ''lat,lon'' @ [0x0A] @ asc ''0,0'')
     = [[asc ''lat'' \<mapsto> Str (asc ''0''), asc ''lon'' \<mapsto> Str (asc ''0'')]]
   \<and> map (\<lambda>l. (located_lat l, located_lon l))
       (useLocationGroup_v2
          [[asc ''lat'' \<mapsto> Str (asc ''0''), asc ''lon'' \<mapsto> Str (asc ''0'')]]
          Undefined Undefined) = [(0, 0)]
   \<and> map (\<lambda>l. (located_lat l, located_lon l))
       (useLocationGroup_v2 [[asc ''location'' \<mapsto> Str (asc ''0, 0'')]] Undefined Undefined)
       = [(0, 0)]
   \<and> useLocationGroup
        [[asc ''lat'' \<mapsto> Str (asc ''0''), asc ''lon'' \<mapsto> Str (asc ''0'')]]
        Undefined Undefined = []
   \<and> useLocationGroup [[asc ''location'' \<mapsto> Str (asc ''0, 0'')]] Undefined Undefined = []"
proof (intro conjI)
  show "parseCSV (asc ''lat,lon'' @ [0x0A] @ asc ''0,0'')
     = [[asc ''lat'' \<mapsto> Str (asc ''0''), asc ''lon'' \<mapsto> Str (asc ''0'')]]"
    by (simp add: csv_defs case_defs string_defs Let_def)
  show "map (\<lambda>l. (located_lat l, located_lon l))
       (useLocationGroup_v2
          [[asc ''lat'' \<mapsto> Str (asc ''0''), asc ''lon'' \<mapsto> Str (asc ''0'')]]
          Undefined Undefined) = [(0, 0)]"
    by (simp add: useLocationGroup_v2_def locate_v2_def List.map_filter_def pick_v2_defs
          region_v2_defs string_defs number_defs Let_def)
  show "map (\<lambda>l. (located_lat l, located_lon l))
       (useLocationGroup_v2 [[asc ''location'' \<mapsto> Str (asc ''0, 0'')]] Undefined Undefined)
       = [(0, 0)]"
    by (simp add: useLocationGroup_v2_def locate_v2_def List.map_filter_def pick_v2_defs
          region_v2_defs string_defs number_defs Let_def)
  show "useLocationGroup
        [[asc ''lat'' \<mapsto> Str (asc ''0''), asc ''lon'' \<mapsto> Str (asc ''0'')]]
        Undefined Undefined = []"
    by (simp add: useLocationGroup_def locate_def List.map_filter_def latlon_v1_defs
          region_v1_defs string_defs number_defs Let_def)
  show "useLocationGroup [[asc ''location'' \<mapsto> Str (asc ''0, 0'')]] Undefined Undefined = []"
    by (simp add: useLocationGroup_def locate_def List.map_filter_def latlon_v1_defs
          region_v1_defs string_defs number_defs Let_def)
qed

text \<open>
  First version: when the \<open>location\<close> column is consulted and its first two parts are
  numbers \<open>a\<close> and \<open>b\<close>, they are taken as (lat, lon) if that order is in range, flipped
  if only the flipped order is in range, and otherwise nothing is assigned.
\<close>

lemma location_fallback_order:
  assumes "fst ll = None \<or> snd ll = None"
    and "\<not> nullish (column r ''location'')"
    and "location_parts (column r ''location'') = p0 # p1 # ps"
    and "toNum (Str p0) = Some a" and "toNum (Str p1) = Some b"
  shows "location_fallback r ll =
           (if \<bar>a\<bar> \<le> 90 \<and> \<bar>b\<bar> \<le> 180 then (Some a, Some b)
            else if \<bar>b\<bar> \<le> 90 \<and> \<bar>a\<bar> \<le> 180 then (Some b, Some a)
            else ll)"
  using assms by (simp add: location_fallback_def)

text \<open>
  Claim C5, on the second version: \<open>parseLatLonFromLocation\<close> has no range test. The
  location string \<open>100, 45.5\<close> (valid only when flipped) gives latitude 100 and
  longitude 45.5, and \<open>200, 300\<close> (valid in neither order) gives latitude 200 and
  longitude 300; the first version gives (45.5, 100) and no coordinates.
\<close>

theorem location_not_flipped_by_second_version:
  "pickLat [asc ''location'' \<mapsto> Str (asc ''100, 45.5'')] = Some 100
   \<and> pickLon [asc ''location'' \<mapsto> Str (asc ''100, 45.5'')] = Some 45.5
   \<and> pickLat [asc ''location'' \<mapsto> Str (asc ''200, 300'')] = Some 200
   \<and> pickLon [asc ''location'' \<mapsto> Str (asc ''200, 300'')] = Some 300
   \<and> parseLatLon [asc ''location'' \<mapsto> Str (asc ''100, 45.5'')] = (Some 45.5, Some 100)
   \<and> parseLatLon [asc ''location'' \<mapsto> Str (asc ''200, 300'')] = (None, None)"
proof (intro conjI)
  show "pickLat [asc ''location'' \<mapsto> Str (asc ''100, 45.5'')] = Some 100"
    by (simp add: pick_v2_defs string_defs number_defs Let_def)
  show "pickLon [asc ''location'' \<mapsto> Str (asc ''100, 45.5'')] = Some 45.5"
    by (simp add: pick_v2_defs string_defs number_defs Let_def)
  show "pickLat [asc ''location'' \<mapsto> Str (asc ''200, 300'')] = Some 200"
    by (simp add: pick_v2_defs string_defs number_defs Let_def)
  show "pickLon [asc ''location'' \<mapsto> Str (asc ''200, 300'')] = Some 300"
    by (simp add: pick_v2_defs string_defs number_defs Let_def)
  show "parseLatLon [asc ''location'' \<mapsto> Str (asc ''100, 45.5'')] = (Some 45.5, Some 100)"
    by (simp add: latlon_v1_defs string_defs number_defs Let_def)
  show "parseLatLon [asc ''location'' \<mapsto> Str (asc ''200, 300'')] = (None, None)"
    by (simp add: latlon_v1_defs string_defs number_defs Let_def)
qed

section \<open>Country normalization\<close>

text \<open>
  Whenever \<open>normalizeCountry\<close> returns a string, normalizing that string again changes
  nothing: the four canonical names map to themselves, and a string that is passed
  through is already trimmed and misses the table again.
\<close>

lemma normalizeCountry_names:
  "normalizeCountry (Str (asc ''France'')) = Str (asc ''France'')"
  "normalizeCountry (Str (asc ''Italy'')) = Str (asc ''Italy'')"
  "normalizeCountry (Str (asc ''Hungary'')) = Str (asc ''Hungary'')"
  "normalizeCountry (Str (asc ''Greece'')) = Str (asc ''Greece'')"
  by (simp_all add: normalizeCountry_def string_defs toUpperCase_def
        upper_cu_def literal_get_def COUNTRY_MAP_def object_prototype_names_def Let_def)

lemma normalizeCountry_canonical:
  "s \<in> set ALLOWED_COUNTRIES \<Longrightarrow> normalizeCountry (Str s) = Str s"
  using normalizeCountry_names by (auto simp: ALLOWED_COUNTRIES_def)

lemma COUNTRY_MAP_values:
  "literal_get COUNTRY_MAP k = Str s \<Longrightarrow> s \<in> set ALLOWED_COUNTRIES"
proof -
  assume a: "literal_get COUNTRY_MAP k = Str s"
  then have "map_of COUNTRY_MAP k = Some s"
    by (auto simp: literal_get_def split: option.splits if_splits)
  then have "(k, s) \<in> set COUNTRY_MAP" by (rule map_of_SomeD)
  then show ?thesis
    by (auto simp: COUNTRY_MAP_def ALLOWED_COUNTRIES_def)
qed

lemma normalizeCountry_idem_on_strings:
  assumes "normalizeCountry v = Str s"
  shows "normalizeCountry (Str s) = Str s"
proof -
  let ?t = "trim (String_of v)"
  consider (blank) "nullish v \<or> ?t = []"
    | (upper) "\<not> nullish v" "?t \<noteq> []" "truthy (literal_get COUNTRY_MAP (toUpperCase ?t))"
    | (exact) "\<not> nullish v" "?t \<noteq> []" "\<not> truthy (literal_get COUNTRY_MAP (toUpperCase ?t))"
        "truthy (literal_get COUNTRY_MAP ?t)"
    | (other) "\<not> nullish v" "?t \<noteq> []" "\<not> truthy (literal_get COUNTRY_MAP (toUpperCase ?t))"
        "\<not> truthy (literal_get COUNTRY_MAP ?t)"
    by blast
  then show ?thesis
  proof cases
    case blank
    then have "s = []" using assms by (auto simp: normalizeCountry_def Let_def split: if_splits)
    then show ?thesis by (simp add: normalizeCountry_def trim_def)
  next
    case upper
    then have "literal_get COUNTRY_MAP (toUpperCase ?t) = Str s"
      using assms by (simp add: normalizeCountry_def Let_def)
    then show ?thesis by (intro normalizeCountry_canonical COUNTRY_MAP_values)
  next
    case exact
    then have "literal_get COUNTRY_MAP ?t = Str s"
      using assms by (simp add: normalizeCountry_def Let_def)
    then show ?thesis by (intro normalizeCountry_canonical COUNTRY_MAP_values)
  next
    case other
    then have s: "s = ?t" using assms by (simp add: normalizeCountry_def Let_def)
    have "trim s = s" by (simp add: s trim_idem)
    then show ?thesis using other s by (simp add: normalizeCountry_def Let_def)
  qed
qed

text \<open>
  Claim C9, at the input \<open>"constructor"\<close>: \<open>COUNTRY_MAP\<close> is an object literal, so
  \<open>COUNTRY_MAP["constructor"]\<close> is the inherited function \<open>Object\<close>, which is truthy and is
  what \<open>normalizeCountry\<close> returns; applied again, it returns the function's text, a
  string. The two results differ.
\<close>

theorem normalizeCountry_constructor:
  "normalizeCountry (Str (asc ''constructor'')) = Builtin (asc ''constructor'')
   \<and> normalizeCountry (normalizeCountry (Str (asc ''constructor'')))
       = Str (asc ''function Object() { [native code] }'')
   \<and> normalizeCountry (normalizeCountry (Str (asc ''constructor'')))
       \<noteq> normalizeCountry (Str (asc ''constructor''))"
  by (simp add: normalizeCountry_def string_defs case_defs lookup_defs COUNTRY_MAP_def Let_def)

section \<open>Region matching\<close>

lemma normalizeCountry_FR:
  "normalizeCountry (Str (asc ''FR'')) = Str (asc ''France'')"
  by (simp add: region_v1_defs case_defs lookup_defs string_defs Let_def)

lemma normalizeProvinceName_ile_de_france:
  "normalizeProvinceName (Str ile_de_france) = Str ile_de_france"
  by (simp add: ile_de_france_def region_v1_defs case_defs lookup_defs string_defs Let_def)

lemma normalizeProvinceName_plain:
  "normalizeProvinceName (Str (asc ''ile de france'')) = Str (asc ''ile de france'')"
  by (simp add: region_v1_defs case_defs lookup_defs string_defs Let_def)

lemma matches_v2:
  "countryMatches (Str (asc ''FR'')) (Str (asc ''France''))"
  "countryMatches (Str (asc ''France'')) (Str (asc ''France''))"
  "provinceMatches (Str ile_de_france) (Str ile_de_france)"
  "\<not> provinceMatches (Str (asc ''ile de france'')) (Str ile_de_france)"
  by (simp_all add: region_v2_defs case_defs lookup_defs ile_de_france_def string_defs Let_def)

lemma region_rows_first_version:
  assumes "r1 (asc ''country'') = Some (Str (asc ''FR''))"
    and "r1 (asc ''province'') = Some (Str ile_de_france)"
    and "r2 (asc ''country'') = Some (Str (asc ''France''))"
    and "r2 (asc ''province'') = Some (Str (asc ''ile de france''))"
  shows "column (normalizeRowCountryProvince r1) ''country'' = Str (asc ''France'')
       \<and> column (normalizeRowCountryProvince r2) ''country'' = Str (asc ''France'')
       \<and> column (normalizeRowCountryProvince r1) ''province'' = Str ile_de_france
       \<and> column (normalizeRowCountryProvince r2) ''province'' = Str (asc ''ile de france'')
       \<and> matchesCountryProvince (normalizeRowCountryProvince r1)
            (Str (asc ''France'')) (Str ile_de_france)
       \<and> \<not> matchesCountryProvince (normalizeRowCountryProvince r2)
            (Str (asc ''France'')) (Str ile_de_france)"
proof -
  have n1: "column (normalizeRowCountryProvince r1) ''country'' = Str (asc ''France'')"
    and p1: "column (normalizeRowCountryProvince r1) ''province'' = Str ile_de_france"
    using assms(1,2) normalizeCountry_FR normalizeProvinceName_ile_de_france
    by (simp_all add: normalizeRowCountryProvince_def column_def coalesce_def
          ile_de_france_def string_defs)
  have n2: "column (normalizeRowCountryProvince r2) ''country'' = Str (asc ''France'')"
    and p2: "column (normalizeRowCountryProvince r2) ''province'' = Str (asc ''ile de france'')"
    using assms(3,4) normalizeCountry_names(1) normalizeProvinceName_plain
    by (simp_all add: normalizeRowCountryProvince_def column_def coalesce_def string_defs)
  have ne: "Str (asc ''ile de france'') \<noteq> Str ile_de_france"
    by (simp add: ile_de_france_def asc_def)
  have w: "normalizeCountry (or_empty (Str (asc ''France''))) = Str (asc ''France'')"
    "normalizeProvinceName (or_empty (Str ile_de_france)) = Str ile_de_france"
    using normalizeCountry_names(1) normalizeProvinceName_ile_de_france
    by (simp_all add: or_empty_def ile_de_france_def asc_def)
  have m1: "matchesCountryProvince (normalizeRowCountryProvince r1)
              (Str (asc ''France'')) (Str ile_de_france)"
    using n1 p1 w normalizeCountry_names(1) normalizeProvinceName_ile_de_france
    by (simp add: matchesCountryProvince_def coalesce_def Let_def)
  have m2: "\<not> matchesCountryProvince (normalizeRowCountryProvince r2)
              (Str (asc ''France'')) (Str ile_de_france)"
    using n2 p2 w ne normalizeCountry_names(1) normalizeProvinceName_plain
    by (simp add: matchesCountryProvince_def coalesce_def Let_def ile_de_france_def asc_def)
  show ?thesis
    using n1 n2 p1 p2 m1 m2 by simp
qed

lemma region_rows_second_version:
  assumes "r1 (asc ''country'') = Some (Str (asc ''FR''))"
    and "r1 (asc ''province'') = Some (Str ile_de_france)"
    and "r2 (asc ''country'') = Some (Str (asc ''France''))"
    and "r2 (asc ''province'') = Some (Str (asc ''ile de france''))"
  shows "countryMatches (pickCountry r1) (Str (asc ''France''))
       \<and> countryMatches (pickCountry r2) (Str (asc ''France''))
       \<and> provinceMatches (Str (pickProvince r1)) (Str ile_de_france)
       \<and> \<not> provinceMatches (Str (pickProvince r2)) (Str ile_de_france)"
proof -
  have c1: "pickCountry r1 = Str (asc ''FR'')" and q1: "pickProvince r1 = ile_de_france"
    using assms(1,2)
    by (simp_all add: pickCountry_def pickProvince_def js_or_def norm_v2_def coalesce_def
          column_def ile_de_france_def string_defs)
  have c2: "pickCountry r2 = Str (asc ''France'')" and q2: "pickProvince r2 = asc ''ile de france''"
    using assms(3,4)
    by (simp_all add: pickCountry_def pickProvince_def js_or_def norm_v2_def coalesce_def
          column_def string_defs)
  show ?thesis
    using matches_v2 by (simp add: c1 c2 q1 q2)
qed

lemma scenario_rows:
  "row_FR (asc ''country'') = Some (Str (asc ''FR''))"
  "row_FR (asc ''province'') = Some (Str ile_de_france)"
  "row_France (asc ''country'') = Some (Str (asc ''France''))"
  "row_France (asc ''province'') = Some (Str (asc ''ile de france''))"
  by (simp_all add: row_FR_def row_France_def asc_def)

text \<open>
  Claim C2 as the code has it. Take any row with country \<open>FR\<close> and province
  \<open>Ile-de-France\<close> (written with the circumflex), any row with country \<open>France\<close> and
  province \<open>ile de france\<close>, and the selected region (France, Ile-de-France with the
  circumflex). In both versions the two rows resolve to the same country, France, and
  pass the country test. Their provinces stay as written, and the province test is an
  equality of the normalized names (first version) or of the trimmed, lower-cased names
  (second version): the first row passes it, the second does not.
\<close>

theorem region_matching_as_written:
  assumes "r1 (asc ''country'') = Some (Str (asc ''FR''))"
    and "r1 (asc ''province'') = Some (Str ile_de_france)"
    and "r2 (asc ''country'') = Some (Str (asc ''France''))"
    and "r2 (asc ''province'') = Some (Str (asc ''ile de france''))"
  shows "(column (normalizeRowCountryProvince r1) ''country'' = Str (asc ''France'')
       \<and> column (normalizeRowCountryProvince r2) ''country'' = Str (asc ''France'')
       \<and> column (normalizeRowCountryProvince r1) ''province'' = Str ile_de_france
       \<and> column (normalizeRowCountryProvince r2) ''province'' = Str (asc ''ile de france'')
       \<and> matchesCountryProvince (normalizeRowCountryProvince r1)
            (Str (asc ''France'')) (Str ile_de_france)
       \<and> \<not> matchesCountryProvince (normalizeRowCountryProvince r2)
            (Str (asc ''France'')) (Str ile_de_france))
       \<and> (countryMatches (pickCountry r1) (Str (asc ''France''))
       \<and> countryMatches (pickCountry r2) (Str (asc ''France''))
       \<and> provinceMatches (Str (pickProvince r1)) (Str ile_de_france)
       \<and> \<not> provinceMatches (Str (pickProvince r2)) (Str ile_de_france))"
  using region_rows_first_version [OF assms] region_rows_second_version [OF assms]
  by (rule conjI)

theorem region_matching_as_written_witness:
  "matchesCountryProvince (normalizeRowCountryProvince row_FR)
     (Str (asc ''France'')) (Str ile_de_france)
   \<and> \<not> matchesCountryProvince (normalizeRowCountryProvince row_France)
        (Str (asc ''France'')) (Str ile_de_france)
   \<and> provinceMatches (Str (pickProvince row_FR)) (Str ile_de_france)
   \<and> \<not> provinceMatches (Str (pickProvince row_France)) (Str ile_de_france)"
  using region_matching_as_written [OF scenario_rows]
  by simp

text \<open>
  The claim as stated fails on the scenario's own rows: with the region (France,
  Ile-de-France) selected, either version keeps one row, the first (latitude 48.85).
\<close>

theorem region_matching_counterexample:
  "map located_lat
     (useLocationGroup [row_FR, row_France] (Str (asc ''France'')) (Str ile_de_france))
     = [48.85]
   \<and> map located_lat
       (useLocationGroup_v2 [row_FR, row_France] (Str (asc ''France'')) (Str ile_de_france))
       = [48.85]"
proof (intro conjI)
  have m: "matchesCountryProvince (normalizeRowCountryProvince row_FR)
             (Str (asc ''France'')) (Str ile_de_france)"
    "\<not> matchesCountryProvince (normalizeRowCountryProvince row_France)
             (Str (asc ''France'')) (Str ile_de_france)"
    using region_rows_first_version [OF scenario_rows] by simp_all
  have l: "map_option located_lat (locate (normalizeRowCountryProvince row_FR)) = Some 48.85"
    by (simp add: locate_def latlon_v1_defs normalizeRowCountryProvince_def row_FR_def
          string_defs number_defs Let_def)
  then obtain z where z: "locate (normalizeRowCountryProvince row_FR) = Some z"
      "located_lat z = 48.85"
    by auto
  show "map located_lat
     (useLocationGroup [row_FR, row_France] (Str (asc ''France'')) (Str ile_de_france))
     = [48.85]"
    using z by (simp add: useLocationGroup_def m List.map_filter_def)
  have c: "countryMatches (pickCountry row_FR) (Str (asc ''France''))"
      "countryMatches (pickCountry row_France) (Str (asc ''France''))"
      "provinceMatches (Str (pickProvince row_FR)) (Str ile_de_france)"
      "\<not> provinceMatches (Str (pickProvince row_France)) (Str ile_de_france)"
    using region_rows_second_version [OF scenario_rows] by simp_all
  have l2: "map_option located_lat (locate_v2 row_FR) = Some 48.85"
    by (simp add: locate_v2_def pick_v2_defs row_FR_def string_defs number_defs Let_def)
  then obtain y where y: "locate_v2 row_FR = Some y" "located_lat y = 48.85"
    by auto
  show "map located_lat
       (useLocationGroup_v2 [row_FR, row_France] (Str (asc ''France'')) (Str ile_de_france))
       = [48.85]"
    using y by (simp add: useLocationGroup_v2_def c List.map_filter_def)
qed

section \<open>Location index\<close>

text \<open>
  First version: the index merges the base dataset and every extra dataset that
  loaded. Whenever it is built, with a sort that keeps the elements it is given, every
  row of every loaded dataset whose normalized country is allowed and whose normalized
  province is truthy has its country listed and its province in that country's list.
\<close>

lemma add_province_adds:
  "\<exists>ps. map_of (add_province c p acc) c = Some ps \<and> p \<in> set ps"
  by (induction acc) auto

lemma add_province_keeps:
  "map_of acc c = Some ps \<Longrightarrow> q \<in> set ps \<Longrightarrow>
   \<exists>ps'. map_of (add_province c' p acc) c = Some ps' \<and> q \<in> set ps'"
  by (induction acc) (auto split: if_splits)

lemma provinces_loop_keeps:
  "map_of acc c = Some ps \<Longrightarrow> q \<in> set ps \<Longrightarrow>
   \<exists>ps'. map_of (provinces_loop rows acc) c = Some ps' \<and> q \<in> set ps'"
proof (induction rows arbitrary: acc ps)
  case Nil
  then show ?case by simp
next
  case (Cons raw rows)
  show ?case
  proof (cases "provinces_loop (raw # rows) acc = provinces_loop rows acc")
    case True
    then show ?thesis using Cons.IH [OF Cons.prems] by simp
  next
    case False
    then obtain c' p where
      step: "provinces_loop (raw # rows) acc = provinces_loop rows (add_province c' p acc)"
      by (auto simp: Let_def split: jsval.splits if_splits)
    obtain ps' where "map_of (add_province c' p acc) c = Some ps'" "q \<in> set ps'"
      using add_province_keeps [OF Cons.prems] by blast
    then show ?thesis using Cons.IH step by simp
  qed
qed

lemma provinces_loop_adds:
  assumes "raw \<in> set rows"
    and "column (normalizeRowCountryProvince raw) ''country'' = Str c"
    and "c \<in> set ALLOWED_COUNTRIES"
    and "truthy (column (normalizeRowCountryProvince raw) ''province'')"
  shows "\<exists>ps. map_of (provinces_loop rows acc) c = Some ps
          \<and> column (normalizeRowCountryProvince raw) ''province'' \<in> set ps"
  using assms(1)
proof (induction rows arbitrary: acc)
  case Nil
  then show ?case by simp
next
  case (Cons r rows)
  have ne: "c \<noteq> []" using assms(3) by (auto simp: ALLOWED_COUNTRIES_def asc_def)
  show ?case
  proof (cases "r = raw")
    case True
    have "provinces_loop (r # rows) acc =
          provinces_loop rows
            (add_province c (column (normalizeRowCountryProvince raw) ''province'') acc)"
      using True assms(2,3,4) ne by (simp add: Let_def)
    then show ?thesis
      using add_province_adds provinces_loop_keeps by metis
  next
    case False
    then have in_rows: "raw \<in> set rows" using Cons.prems by simp
    show ?thesis
    proof (cases "provinces_loop (r # rows) acc = provinces_loop rows acc")
      case True
      then show ?thesis using Cons.IH [OF in_rows] by simp
    next
      case False
      then obtain c' p where
        "provinces_loop (r # rows) acc = provinces_loop rows (add_province c' p acc)"
        by (auto simp: Let_def split: jsval.splits if_splits)
      then show ?thesis using Cons.IH [OF in_rows] by simp
    qed
  qed
qed

lemma sort_provinces_keeps:
  assumes "sort_provinces sortfn xs = Some out"
    and "\<And>ps sorted_ps. sortfn ps = Some sorted_ps \<Longrightarrow> set sorted_ps = set ps"
    and "(c, ps) \<in> set xs"
  shows "\<exists>ps'. (c, ps') \<in> set out \<and> set ps' = set ps"
  using assms(1,3)
proof (induction xs arbitrary: out)
  case Nil
  then show ?case by simp
next
  case (Cons x xs)
  obtain c0 ps0 where x: "x = (c0, ps0)" by (cases x)
  obtain s0 rest where s0: "sortfn ps0 = Some s0" "sort_provinces sortfn xs = Some rest"
      "out = (c0, s0) # rest"
    using Cons.prems(1) x by (auto split: option.splits)
  show ?case
  proof (cases "(c, ps) = x")
    case True
    then show ?thesis using x s0 assms(2) by auto
  next
    case False
    then have "(c, ps) \<in> set xs" using Cons.prems(2) by simp
    then show ?thesis using Cons.IH [OF s0(2)] s0(3) by auto
  qed
qed

lemma index_union_first_version:
  assumes built: "useCountryProvinceIndex sortfn sort_countries (Some wtp) extras
                    = Inr (countries, out)"
    and sortfn: "\<And>ps sorted_ps. sortfn ps = Some sorted_ps \<Longrightarrow> set sorted_ps = set ps"
    and sortc: "\<And>cs. set (sort_countries cs) = set cs"
    and dataset: "rows = wtp \<or> Some rows \<in> set extras"
    and raw: "raw \<in> set rows"
    and country: "column (normalizeRowCountryProvince raw) ''country'' = Str c"
      "c \<in> set ALLOWED_COUNTRIES"
    and province: "truthy (column (normalizeRowCountryProvince raw) ''province'')"
  shows "c \<in> set countries
       \<and> (\<exists>ps. (c, ps) \<in> set out
              \<and> column (normalizeRowCountryProvince raw) ''province'' \<in> set ps)"
proof -
  let ?all = "wtp @ concat (map (\<lambda>d. case d of Some rs \<Rightarrow> rs | None \<Rightarrow> []) extras)"
  let ?pbc = "provinces_loop ?all []"
  have "raw \<in> set ?all"
    using dataset raw by (auto intro!: bexI [of _ "Some rows"])
  then obtain ps where ps: "map_of ?pbc c = Some ps"
      "column (normalizeRowCountryProvince raw) ''province'' \<in> set ps"
    using provinces_loop_adds [OF _ country province] by blast
  have cs: "countries = sort_countries (map fst ?pbc)"
    using built by (auto simp: useCountryProvinceIndex_def Let_def split: option.splits)
  have "c \<in> set (map fst ?pbc)"
    using ps(1) by (metis map_of_eq_None_iff option.distinct(1) set_map)
  then have c_in: "c \<in> set countries" using cs sortc by simp
  have so: "sort_provinces sortfn
              (map (\<lambda>c. (c, case map_of ?pbc c of Some ps \<Rightarrow> ps | None \<Rightarrow> [])) countries)
            = Some out"
    using built cs by (auto simp: useCountryProvinceIndex_def Let_def split: option.splits)
  have "(c, ps) \<in> set (map (\<lambda>c. (c, case map_of ?pbc c of Some ps \<Rightarrow> ps | None \<Rightarrow> []))
                         countries)"
    using c_in ps(1) by (auto intro!: image_eqI [of _ _ c])
  then obtain ps' where "(c, ps') \<in> set out" "set ps' = set ps"
    using sort_provinces_keeps [OF so sortfn] by blast
  then show ?thesis using c_in ps(2) by auto
qed


text \<open>
  Claim C3, on the second version: \<open>useCountryProvinceIndex(csvUrl)\<close> reads one dataset.
  With a base dataset holding (GR, Attica) and an auxiliary dataset holding (GR, Crete),
  its index for Greece is Attica alone, since the auxiliary dataset never reaches it;
  the first version, given both, lists Attica and Crete.
\<close>

theorem index_second_version_single_dataset:
  "useCountryProvinceIndex_v2 Some
     (Some [[asc ''country'' \<mapsto> Str (asc ''GR''), asc ''province'' \<mapsto> Str (asc ''Attica'')]])
     = Inr ([Str (asc ''Greece'')], [(Str (asc ''Greece''), [Str (asc ''Attica'')])])
   \<and> useCountryProvinceIndex Some (\<lambda>cs. cs)
       (Some [[asc ''country'' \<mapsto> Str (asc ''GR''), asc ''province'' \<mapsto> Str (asc ''Attica'')]])
       [Some [[asc ''country'' \<mapsto> Str (asc ''GR''), asc ''province'' \<mapsto> Str (asc ''Crete'')]]]
     = Inr ([asc ''Greece''],
            [(asc ''Greece'', [Str (asc ''Attica''), Str (asc ''Crete'')])])"
proof (intro conjI)
  show "useCountryProvinceIndex_v2 Some
     (Some [[asc ''country'' \<mapsto> Str (asc ''GR''), asc ''province'' \<mapsto> Str (asc ''Attica'')]])
     = Inr ([Str (asc ''Greece'')], [(Str (asc ''Greece''), [Str (asc ''Attica'')])])"
    by (simp add: useCountryProvinceIndex_v2_def region_v2_defs case_defs lookup_defs
          string_defs Let_def)
  show "useCountryProvinceIndex Some (\<lambda>cs. cs)
       (Some [[asc ''country'' \<mapsto> Str (asc ''GR''), asc ''province'' \<mapsto> Str (asc ''Attica'')]])
       [Some [[asc ''country'' \<mapsto> Str (asc ''GR''), asc ''province'' \<mapsto> Str (asc ''Crete'')]]]
     = Inr ([asc ''Greece''],
            [(asc ''Greece'', [Str (asc ''Attica''), Str (asc ''Crete'')])])"
    by (simp add: useCountryProvinceIndex_def region_v1_defs case_defs lookup_defs
          string_defs Let_def)
qed

section \<open>Rows of the hand-rolled CSV parser\<close>

text \<open>
  Every row \<open>parseCSV\<close> returns has as keys the normalized header names, but for a
  header that normalizes to \<open>__proto__\<close>, which creates no property; a header whose
  columns are all missing from the data line maps to the empty string. A quoted field
  that holds no quote keeps its commas, and a doubled quote in a quoted field that
  holds something else as well gives one quote.
\<close>

lemma fill_row_dom:
  "dom (fill_row hs i cols r) = dom r \<union> (set hs - {asc ''__proto__''})"
  by (induction hs arbitrary: i r) (auto simp: assign_def)

lemma fill_row_other:
  "h \<notin> set hs \<Longrightarrow> fill_row hs i cols r h = r h"
  by (induction hs arbitrary: i r) (auto simp: assign_def)

lemma fill_row_absent:
  assumes "h \<in> set hs" and "h \<noteq> asc ''__proto__''"
    and "\<forall>j<length hs. hs ! j = h \<longrightarrow> length cols \<le> i + j"
  shows "fill_row hs i cols r h = Some (Str [])"
  using assms
proof (induction hs arbitrary: i r)
  case Nil
  then show ?case by simp
next
  case (Cons a hs)
  show ?case
  proof (cases "h \<in> set hs")
    case True
    have "\<forall>j<length hs. hs ! j = h \<longrightarrow> length cols \<le> Suc i + j"
      using Cons.prems(3) by fastforce
    then show ?thesis using Cons.IH [OF True Cons.prems(2)] by simp
  next
    case False
    then have a: "a = h" using Cons.prems(1) by simp
    have "length cols \<le> i" using Cons.prems(3) a by fastforce
    then show ?thesis
      using False a Cons.prems(2) by (simp add: fill_row_other assign_def trim_def)
  qed
qed

lemma parseCSV_keys:
  assumes "filter (\<lambda>l. l \<noteq> []) (split_str 0x0A (filter (\<lambda>c. c \<noteq> 0x0D) text)) = header # data"
    and "r \<in> set (parseCSV text)"
  shows "dom r = set (map normalizeHeader (splitCSVLine header)) - {asc ''__proto__''}"
proof -
  obtain line where
    "r = fill_row (map normalizeHeader (splitCSVLine header)) 0 (splitCSVLine line) Map.empty"
    using assms by (auto simp: parseCSV_def Let_def split: if_splits)
  then show ?thesis by (simp only: fill_row_dom dom_empty Un_empty_left)
qed

lemma split_loop_in_quotes:
  "0x22 \<notin> set xs \<Longrightarrow> rest = [] \<or> hd rest \<noteq> 0x22 \<Longrightarrow>
   split_loop (xs @ 0x22 # rest) out cur True = split_loop rest out (cur @ xs) False"
proof (induction xs arbitrary: cur)
  case Nil
  then show ?case by (cases rest) auto
next
  case (Cons x xs)
  then show ?case by (cases xs) auto
qed

lemma split_loop_doubled_in_quotes:
  "0x22 \<notin> set xs \<Longrightarrow>
   split_loop (xs @ 0x22 # 0x22 # rest) out cur True = split_loop rest out (cur @ xs @ [0x22]) True"
proof (induction xs arbitrary: cur)
  case Nil
  then show ?case by simp
next
  case (Cons x xs)
  then show ?case by (cases xs) auto
qed

lemma split_loop_quoted_field:
  assumes "xs \<noteq> []" and "0x22 \<notin> set xs" and "rest = [] \<or> hd rest \<noteq> 0x22"
  shows "split_loop (0x22 # xs @ 0x22 # rest) out cur False = split_loop rest out (cur @ xs) False"
proof -
  obtain x xs' where x: "xs = x # xs'" using assms(1) by (cases xs) auto
  then have "split_loop (0x22 # xs @ 0x22 # rest) out cur False
             = split_loop (xs @ 0x22 # rest) out cur True"
    using assms(2) by auto
  then show ?thesis using split_loop_in_quotes [OF assms(2,3)] by simp
qed

lemma splitCSVLine_quoted_commas:
  assumes "xs \<noteq> []" and "0x22 \<notin> set xs"
  shows "splitCSVLine (0x22 # xs @ [0x22]) = [xs]"
  using split_loop_quoted_field [OF assms, of "[]" "[]" "[]"]
  by (simp add: splitCSVLine_def)

lemma split_loop_doubled_quote:
  assumes "0x22 \<notin> set xs" and "0x22 \<notin> set ys" and "xs \<noteq> [] \<or> ys \<noteq> []"
    and "rest = [] \<or> hd rest \<noteq> 0x22"
  shows "split_loop (0x22 # xs @ 0x22 # 0x22 # ys @ 0x22 # rest) out cur False
         = split_loop rest out (cur @ xs @ [0x22] @ ys) False"
proof (cases xs)
  case Nil
  then obtain y ys' where y: "ys = y # ys'" using assms(3) by (cases ys) auto
  have "split_loop (0x22 # xs @ 0x22 # 0x22 # ys @ 0x22 # rest) out cur False
        = split_loop (ys @ 0x22 # rest) out (cur @ [0x22]) True"
    using Nil y assms(2) by auto
  then show ?thesis
    using split_loop_in_quotes [OF assms(2,4)] Nil by simp
next
  case (Cons x xs')
  have "split_loop (0x22 # xs @ 0x22 # 0x22 # ys @ 0x22 # rest) out cur False
        = split_loop (xs @ 0x22 # 0x22 # ys @ 0x22 # rest) out cur True"
    using Cons assms(1) by auto
  also have "\<dots> = split_loop (ys @ 0x22 # rest) out (cur @ xs @ [0x22]) True"
    using split_loop_doubled_in_quotes [OF assms(1)] by simp
  also have "\<dots> = split_loop rest out (cur @ xs @ [0x22] @ ys) False"
    using split_loop_in_quotes [OF assms(2,4)] by simp
  finally show ?thesis .
qed


text \<open>
  Claim C10, at a quoted field made of quotes only. The loop pairs quotes from the
  left before it asks whether a quote opens a field: the line of four quotes (a quoted
  field holding one doubled quote) gives a field of two quotes instead of one, and the
  empty quoted field gives a field of one quote. In the row of such a line under the
  header \<open>h,__proto__,b\<close>, \<open>h\<close> holds the two quotes, the key \<open>__proto__\<close> is missing, and the
  absent column \<open>b\<close> holds the empty string.
\<close>

theorem splitCSVLine_quotes_only:
  "splitCSVLine [0x22, 0x22, 0x22, 0x22] = [[0x22, 0x22]]
   \<and> splitCSVLine [0x22, 0x22] = [[0x22]]
   \<and> map (\<lambda>r. (r (asc ''h''), r (asc ''__proto__''), r (asc ''b'')))
        (parseCSV (asc ''h,__proto__,b'' @ [0x0A] @ [0x22, 0x22, 0x22, 0x22] @ asc '',x''))
      = [(Some (Str [0x22, 0x22]), None, Some (Str []))]"
  by (simp add: csv_defs case_defs string_defs Let_def)

end
